theory Spec2Isabelle
  imports Complex_Main "HOL-Library.Multiset"
begin

section \<open>Data model of the swap service\<close>

text \<open>
  The embedding follows \<^verbatim>\<open>SwapService\<close> of
  \<^verbatim>\<open>meta-swap-api/src/swap\<close> and of \<^verbatim>\<open>tee-txn-signer/src/swap/swap.service.ts\<close>.
  The two classes are the same text except for \<^verbatim>\<open>createSwapParams\<close>, the
  transaction-family guard of \<^verbatim>\<open>_swapTokens\<close> and one extra field of the
  answer of \<^verbatim>\<open>getQuote\<close>. The functions below are those of meta-swap-api; the
  normalizer and the execution method of tee-txn-signer are embedded beside them as
  \<open>createSwapParams_tee\<close> and \<open>private_swapTokens_tee\<close>.

  \<^verbatim>\<open>BigNumber\<close> values are finite decimal numbers, modelled as rationals: the
  data model makes amounts and fees unsigned numbers, so \<^verbatim>\<open>NaN\<close> and the
  infinities of the library are left out.
\<close>

type_synonym BigNumber = rat

text \<open>
  The enum \<^verbatim>\<open>ChainId\<close> is declared in \<^verbatim>\<open>interfaces/swap.interface\<close>; the
  service names the two members below. Both are truthy values.
\<close>

datatype ChainId = ETHEREUM | SOL

record TokenRef =
  address :: string
  chainId :: ChainId
  decimals :: nat

record SwapParams =
  fromToken :: TokenRef
  toToken :: TokenRef
  amount :: BigNumber
  slippageTolerance :: rat
  recipient :: "string option"

record SwapQuote =
  outputAmount :: BigNumber
  fee :: BigNumber
  estimatedGas :: "BigNumber option"

text \<open>
  An unsigned transaction is either of the EVM family or of the Solana family; the
  service tells them apart with \<^verbatim>\<open>'instructions' in tx\<close>.
\<close>

record EthUnsignedSwapTransaction =
  to :: string
  data :: string
  txvalue :: "string option"
  gasLimit :: "string option"

datatype UnsignedSwapTransaction =
  EthTx EthUnsignedSwapTransaction
| SolTx "string list"

text \<open>
  Every call on a collaborator (a provider, the signer, the token-metadata helper) is
  awaited, and either resolves to a value or rejects with a message.
\<close>

datatype 'a outcome = Resolves 'a | Rejects string

text \<open>
  A provider is an object behind \<^verbatim>\<open>ISwapProvider\<close>. \<^verbatim>\<open>isInit\<close> is asked again by
  every call of \<^verbatim>\<open>getActiveProviders\<close>, so its answer is indexed by the number of the
  poll; \<open>isInitLatency\<close> and \<open>quoteLatency\<close> say when the provider's promise of a
  fan-out settles, which fixes the order in which the callbacks of
  \<^verbatim>\<open>Promise.all\<close> resume.
\<close>

record ISwapProvider =
  getName :: string
  isInit :: "nat \<Rightarrow> bool outcome"
  isInitLatency :: "nat \<Rightarrow> nat"
  isSwapSupported :: "TokenRef \<Rightarrow> TokenRef \<Rightarrow> bool outcome"
  getSwapQuote :: "SwapParams \<Rightarrow> SwapQuote outcome"
  quoteLatency :: nat
  getUnsignedTransaction :: "SwapParams \<Rightarrow> UnsignedSwapTransaction outcome"

text \<open>\<^verbatim>\<open>interface ProviderQuote extends SwapQuote { provider: ISwapProvider }\<close>\<close>

record ProviderQuote = SwapQuote +
  provider :: ISwapProvider

section \<open>Collaborators, errors and the world\<close>

text \<open>
  The signer \<^verbatim>\<open>EthService\<close>: the address of its wallet and the answers of its three
  asynchronous operations. \<^verbatim>\<open>buildAndSendTransaction\<close> resolves to the hash of the
  signed transaction or to nothing, \<^verbatim>\<open>waitForTransaction\<close> to a receipt or to nothing.
\<close>

record ApproveArgs =
  tokenAddress :: string
  spenderAddress :: string
  approveAmount :: string

record TxEnvelope =
  envTo :: string
  envData :: string
  envValue :: int
  envGasLimit :: "int option"

record Receipt =
  receiptHash :: string
  receiptStatus :: int

record EthService =
  walletAddress :: string
  approveERC20IfNot :: "ApproveArgs \<Rightarrow> unit outcome"
  buildAndSendTransaction :: "TxEnvelope \<Rightarrow> string option outcome"
  waitForTransaction :: "string \<Rightarrow> Receipt option outcome"

text \<open>
  The payload \<^verbatim>\<open>cause.providers\<close> of \<^verbatim>\<open>NoValidQuote\<close> is a list of provider
  objects in \<^verbatim>\<open>swapTokens\<close> and a list of provider names in \<^verbatim>\<open>getQuote\<close>.
\<close>

datatype cause = ProviderObjects "ISwapProvider list" | ProviderNames "string list"

text \<open>
  What a request can end with: the two error classes of \<^verbatim>\<open>errors/error.list\<close>, the
  plain \<^verbatim>\<open>Error\<close> of \<^verbatim>\<open>swapTokensByProvider\<close>, the two \<^verbatim>\<open>HttpException\<close>s,
  the argument and numeric faults of the ethers library, and a rejection of an awaited
  collaborator call that no \<^verbatim>\<open>try\<close> catches.
\<close>

datatype error =
  NoValidQuote cause
| NotSupportedSigner
| UnsupportedProvider string
| HttpException string nat
| InvalidArgument string
| NumericFault string
| CollaboratorError string

text \<open>
  The calls that leave the service: token-metadata lookups, the provider's transaction
  build and the signer's operations, in the order in which they are made.
\<close>

datatype event =
  GetDecimals string ChainId
| GetWallet
| GetUnsignedTransaction string
| ApproveERC20IfNot ApproveArgs
| BuildAndSendTransaction TxEnvelope
| WaitForTransaction string

record World =
  polls :: nat
  trace :: "event list"

definition emit :: "event \<Rightarrow> World \<Rightarrow> World" where
  "emit e w = w\<lparr>trace := trace w @ [e]\<rparr>"

text \<open>
  The service object: the registry \<^verbatim>\<open>this.providers\<close>, the signer, the static helper
  \<^verbatim>\<open>EvmHelper.getDecimals\<close> and the library function \<^verbatim>\<open>ethers.toBigInt\<close>, whose
  sources are not part of the service.
\<close>

record SwapService =
  providers :: "ISwapProvider list"
  etherService :: EthService
  getDecimals :: "string \<Rightarrow> ChainId \<Rightarrow> nat outcome"
  toBigInt :: "string \<Rightarrow> int outcome"

text \<open>
  \<^verbatim>\<open>SwapRequestDto | QuoteRequestDto\<close>: a missing (falsy) chain id is \<open>None\<close>;
  \<open>slippage\<close> is \<open>None\<close> when the request has no such property. The meta-swap-api
  request carries \<^verbatim>\<open>normalAmountIn\<close>, the tee-txn-signer request \<^verbatim>\<open>amountIn\<close>.
\<close>

record SwapRequest =
  chainIn :: "ChainId option"
  tokenIn :: string
  chainOut :: "ChainId option"
  tokenOut :: string
  normalAmountIn :: string
  slippage :: "rat option"

record SwapRequestDto =
  chainIn_tee :: "ChainId option"
  tokenIn_tee :: string
  chainOut_tee :: "ChainId option"
  tokenOut_tee :: string
  amountIn :: string
  slippage_tee :: "rat option"

section \<open>Decimal strings\<close>

definition isDigit :: "char \<Rightarrow> bool" where
  "isDigit c \<longleftrightarrow> c \<in> set ''0123456789''"

definition digitVal :: "char \<Rightarrow> nat" where
  "digitVal c = of_char c - 48"

definition digitsVal :: "string \<Rightarrow> nat" where
  "digitsVal ds = foldl (\<lambda>a c. 10 * a + digitVal c) 0 ds"

text \<open>
  \<^verbatim>\<open>_value.match(/^(-?)([0-9]*)\.?([0-9]*)$/)\<close>: the three groups, or no match.
\<close>

definition matchDecimal :: "string \<Rightarrow> (string \<times> string \<times> string) option" where
  "matchDecimal s =
     (let (sg, r) = (case s of c # t \<Rightarrow> if c = CHR ''-'' then (''-'', t) else ('''', s) | [] \<Rightarrow> ('''', s));
          whole = takeWhile isDigit r;
          r1 = dropWhile isDigit r;
          fraction = (case r1 of c # t \<Rightarrow> if c = CHR ''.'' then t else r1 | [] \<Rightarrow> r1)
      in if list_all isDigit fraction then Some (sg, whole, fraction) else None)"

text \<open>\<^verbatim>\<open>BigInt\<close> of an optional minus sign followed by decimal digits.\<close>

definition BigInt :: "string \<Rightarrow> int" where
  "BigInt s = (case s of c # t \<Rightarrow> if c = CHR ''-'' then - int (digitsVal t) else int (digitsVal s)
               | [] \<Rightarrow> 0)"

text \<open>
  The number a decimal string denotes: sign, whole digits, fractional digits. This is
  the reference against which the scaling of the normalizer is stated.
\<close>

definition decimalValue :: "string \<Rightarrow> rat option" where
  "decimalValue s =
     (case matchDecimal s of
        None \<Rightarrow> None
      | Some (sg, whole, fraction) \<Rightarrow>
          if whole = [] \<and> fraction = [] then None
          else Some ((if sg = ''-'' then - 1 else 1) *
                 (of_nat (digitsVal whole) + of_nat (digitsVal fraction) / 10 ^ length fraction)))"

text \<open>
  \<open>fitsDecimals s d\<close>: the decimal string \<open>s\<close> has no non-zero digit after its
  \<open>d\<close>-th fractional digit.
\<close>

definition fitsDecimals :: "string \<Rightarrow> nat \<Rightarrow> bool" where
  "fitsDecimals s d =
     (case matchDecimal s of
        None \<Rightarrow> False
      | Some (sg, whole, fraction) \<Rightarrow> list_all (\<lambda>c. c = CHR ''0'') (drop d fraction))"

section \<open>The ethers functions the normalizer and the orchestrator call\<close>

text \<open>
  \<^verbatim>\<open>ethers.parseUnits(value, decimals)\<close> of ethers v6 is
  \<^verbatim>\<open>FixedNumber.fromString(value, { decimals, width: 512 }).value\<close>. The library is
  not part of the repository; the definition follows its published source: the match
  above, the bound of 80 on the decimals of a format, padding of the fraction with
  blocks of zeros, the check that nothing but zeros is cut off, and the range check of a
  signed 512-bit value.
\<close>

definition Zeros :: string where
  "Zeros = replicate 128 (CHR ''0'')"

function padDecimal :: "string \<Rightarrow> nat \<Rightarrow> string" where
  "padDecimal decimal n = (if length decimal < n then padDecimal (decimal @ Zeros) n else decimal)"
  by pat_completeness auto
termination
  by (relation "measure (\<lambda>(decimal, n). n - length decimal)") (auto simp: Zeros_def)

declare padDecimal.simps [simp del]

definition parseUnits :: "string \<Rightarrow> nat \<Rightarrow> error + int" where
  "parseUnits v unit =
     (case matchDecimal v of
        None \<Rightarrow> Inl (InvalidArgument ''invalid FixedNumber string value'')
      | Some (sg, m2, m3) \<Rightarrow>
          if length m2 + length m3 = 0 then Inl (InvalidArgument ''invalid FixedNumber string value'')
          else if unit > 80 then Inl (InvalidArgument ''invalid FixedNumber decimals (too large)'')
          else
            let whole = (if m2 = [] then ''0'' else m2);
                decimal = padDecimal m3 unit
            in if \<not> list_all (\<lambda>c. c = CHR ''0'') (drop unit decimal)
               then Inl (NumericFault ''too many decimals for format'')
               else
                 let val = BigInt (sg @ whole @ take unit decimal)
                 in if - (2 ^ 511) \<le> val \<and> val < 2 ^ 511 then Inr val
                    else Inl (NumericFault ''overflow''))"

definition parseEther :: "string \<Rightarrow> error + int" where
  "parseEther ether = parseUnits ether 18"

text \<open>
  \<^verbatim>\<open>BigNumber.toString(10)\<close>: with a base given, the number is first rounded to
  \<^verbatim>\<open>DECIMAL_PLACES\<close> (20) decimal places with \<^verbatim>\<open>ROUND_HALF_UP\<close> (to the nearest,
  a tie away from zero) and then printed in plain notation. \<open>toString10\<close> is the number
  the print denotes.
\<close>

definition roundHalfUp :: "rat \<Rightarrow> int" where
  "roundHalfUp x = (if x < 0 then - \<lfloor>- x + 1 / 2\<rfloor> else \<lfloor>x + 1 / 2\<rfloor>)"

definition toString10 :: "BigNumber \<Rightarrow> rat" where
  "toString10 n = of_int (roundHalfUp (n * 10 ^ 20)) / 10 ^ 20"

text \<open>
  \<^verbatim>\<open>ethers.formatUnits(value, decimals)\<close> on a decimal print, given by the number
  \<open>v\<close> it denotes: the decimals must be at most 80 and the print that of an integer
  in the signed 512-bit range; the answer denotes the value divided by the power of
  ten.
\<close>

definition formatUnits :: "rat \<Rightarrow> nat \<Rightarrow> error + rat" where
  "formatUnits v unit =
     (if unit > 80 then Inl (InvalidArgument ''invalid FixedNumber decimals (too large)'')
      else if of_int \<lfloor>v\<rfloor> \<noteq> v then Inl (InvalidArgument ''invalid BigNumberish string'')
      else if - (2 ^ 511) \<le> \<lfloor>v\<rfloor> \<and> \<lfloor>v\<rfloor> < 2 ^ 511 then Inr (v / 10 ^ unit)
      else Inl (NumericFault ''overflow''))"

text \<open>
  The approval amount of \<^verbatim>\<open>_swapTokens\<close>, the string literal of the source.
\<close>

definition MAX_ALLOWANCE :: string where
  "MAX_ALLOWANCE =
     ''115792089237316195423570985008687907853269984665640564039457584007913129639935''"

section \<open>The normalizer\<close>

text \<open>
  \<^verbatim>\<open>createSwapParams\<close> of meta-swap-api: default the chain ids, look up the decimals
  of the source token and then of the destination token, scale \<^verbatim>\<open>normalAmountIn\<close>
  with \<^verbatim>\<open>parseUnits\<close> and wrap its base-10 print in a \<^verbatim>\<open>BigNumber\<close>. A lookup
  that rejects, or a fault of \<^verbatim>\<open>parseUnits\<close>, ends the function.
\<close>

definition createSwapParams ::
  "SwapService \<Rightarrow> SwapRequest \<Rightarrow> World \<Rightarrow> (error + SwapParams) \<times> World" where
  "createSwapParams svc request w =
     (let cIn = (case chainIn request of None \<Rightarrow> ETHEREUM | Some c \<Rightarrow> c);
          cOut = (case chainOut request of None \<Rightarrow> ETHEREUM | Some c \<Rightarrow> c);
          w1 = emit (GetDecimals (tokenIn request) cIn) w
      in case getDecimals svc (tokenIn request) cIn of
           Rejects m \<Rightarrow> (Inl (CollaboratorError m), w1)
         | Resolves tokenInDecimals \<Rightarrow>
             let w2 = emit (GetDecimals (tokenOut request) cOut) w1
             in case getDecimals svc (tokenOut request) cOut of
                  Rejects m \<Rightarrow> (Inl (CollaboratorError m), w2)
                | Resolves tokenOutDecimals \<Rightarrow>
                    (case parseUnits (normalAmountIn request) tokenInDecimals of
                       Inl e \<Rightarrow> (Inl e, w2)
                     | Inr units \<Rightarrow>
                         (Inr \<lparr>fromToken = \<lparr>address = tokenIn request, chainId = cIn,
                                              decimals = tokenInDecimals\<rparr>,
                               toToken = \<lparr>address = tokenOut request, chainId = cOut,
                                            decimals = tokenOutDecimals\<rparr>,
                               amount = of_int units,
                               slippageTolerance =
                                 (case slippage request of None \<Rightarrow> 1 / 2 | Some s \<Rightarrow> s),
                               recipient = None\<rparr>, w2)))"

text \<open>
  \<^verbatim>\<open>createSwapParams\<close> of tee-txn-signer: no lookup and no scaling; both tokens get
  18 decimals and the amount is \<^verbatim>\<open>new BigNumber(request.amountIn)\<close>. The constructor
  of the library is the parameter \<open>bn\<close>.
\<close>

definition createSwapParams_tee :: "(string \<Rightarrow> BigNumber) \<Rightarrow> SwapRequestDto \<Rightarrow> SwapParams" where
  "createSwapParams_tee bn request =
     (let cIn = (case chainIn_tee request of None \<Rightarrow> ETHEREUM | Some c \<Rightarrow> c);
          cOut = (case chainOut_tee request of None \<Rightarrow> ETHEREUM | Some c \<Rightarrow> c)
      in \<lparr>fromToken = \<lparr>address = tokenIn_tee request, chainId = cIn, decimals = 18\<rparr>,
          toToken = \<lparr>address = tokenOut_tee request, chainId = cOut, decimals = 18\<rparr>,
          amount = bn (amountIn request),
          slippageTolerance = (case slippage_tee request of None \<Rightarrow> 1 / 2 | Some s \<Rightarrow> s),
          recipient = None\<rparr>)"

section \<open>The provider pool and the aggregator\<close>

text \<open>
  The callback of \<^verbatim>\<open>getActiveProviders\<close> after its \<^verbatim>\<open>await provider.isInit()\<close>:
  push the provider when the answer is true; a rejection is caught and logged.
\<close>

definition initCallback :: "nat \<Rightarrow> ISwapProvider list \<Rightarrow> ISwapProvider \<Rightarrow> ISwapProvider list" where
  "initCallback k activeProviders p =
     (case isInit p k of
        Resolves b \<Rightarrow> if b then activeProviders @ [p] else activeProviders
      | Rejects m \<Rightarrow> activeProviders)"

text \<open>
  \<^verbatim>\<open>Promise.all(this.providers.map(async ...))\<close> starts every check at once; each
  callback resumes when its own promise settles, so the pushes happen in the order of
  settling: by latency, and in registration order among equal latencies.
\<close>

definition getActiveProviders :: "SwapService \<Rightarrow> World \<Rightarrow> ISwapProvider list \<times> World" where
  "getActiveProviders svc w =
     (let k = polls w;
          settled = sort_key (\<lambda>p. isInitLatency p k) (providers svc)
      in (foldl (initCallback k) [] settled, w\<lparr>polls := Suc k\<rparr>))"

text \<open>
  The callback of \<^verbatim>\<open>getQuotesFromProviders\<close>: an unsupported pair returns early, a
  rejection of either call is caught and logged, a quote is pushed with its provider.
\<close>

definition quoteCallback :: "SwapParams \<Rightarrow> ProviderQuote list \<Rightarrow> ISwapProvider \<Rightarrow> ProviderQuote list" where
  "quoteCallback params quotes p =
     (case isSwapSupported p (fromToken params) (toToken params) of
        Rejects m \<Rightarrow> quotes
      | Resolves isSupported \<Rightarrow>
          if \<not> isSupported then quotes
          else (case getSwapQuote p params of
                  Rejects m \<Rightarrow> quotes
                | Resolves quote \<Rightarrow> quotes @ [SwapQuote.extend quote \<lparr>provider = p\<rparr>]))"

definition getQuotesFromProviders ::
  "SwapService \<Rightarrow> SwapParams \<Rightarrow> World \<Rightarrow> (error + ProviderQuote list) \<times> World" where
  "getQuotesFromProviders svc params w =
     (let (activeProviders, w1) = getActiveProviders svc w;
          settled = sort_key quoteLatency activeProviders
      in (Inr (foldl (quoteCallback params) [] settled), w1))"

section \<open>The execution orchestrator\<close>

record SwapResult =
  transactionHash :: string
  status :: string
  resultProvider :: string

text \<open>
  \<^verbatim>\<open>_swapTokens\<close> of meta-swap-api, in three definitions. \<open>sendAndConfirm\<close> is its
  end, from \<^verbatim>\<open>buildAndSendTransaction\<close> on: a missing signed transaction and a missing
  receipt are the two \<^verbatim>\<open>HttpException\<close>s.
\<close>

definition sendAndConfirm ::
  "SwapService \<Rightarrow> ISwapProvider \<Rightarrow> TxEnvelope \<Rightarrow> World \<Rightarrow> (error + SwapResult) \<times> World" where
  "sendAndConfirm svc p unsignedTx w =
     (let w1 = emit (BuildAndSendTransaction unsignedTx) w
      in case buildAndSendTransaction (etherService svc) unsignedTx of
           Rejects m \<Rightarrow> (Inl (CollaboratorError m), w1)
         | Resolves None \<Rightarrow> (Inl (HttpException ''Cannot send transaction'' 404), w1)
         | Resolves (Some txHash) \<Rightarrow>
             let w2 = emit (WaitForTransaction txHash) w1
             in case waitForTransaction (etherService svc) txHash of
                  Rejects m \<Rightarrow> (Inl (CollaboratorError m), w2)
                | Resolves None \<Rightarrow> (Inl (HttpException ''Cannot find transaction receipt'' 404), w2)
                | Resolves (Some receipt) \<Rightarrow>
                    (Inr \<lparr>transactionHash = receiptHash receipt,
                          status = (if receiptStatus receipt = 1 then ''success'' else ''failed''),
                          resultProvider = getName p\<rparr>, w2))"

text \<open>
  The object literal \<^verbatim>\<open>unsignedTx\<close>: a missing or empty \<^verbatim>\<open>tx.value\<close> is 0, any
  other goes through \<^verbatim>\<open>ethers.parseEther\<close>; a missing or empty \<^verbatim>\<open>tx.gasLimit\<close>
  is undefined, any other goes through \<^verbatim>\<open>ethers.toBigInt\<close>.
\<close>

definition buildEnvelope :: "SwapService \<Rightarrow> EthUnsignedSwapTransaction \<Rightarrow> error + TxEnvelope" where
  "buildEnvelope svc tx =
     (case (case txvalue tx of None \<Rightarrow> Inr 0
            | Some v \<Rightarrow> if v = [] then Inr 0 else parseEther v) of
        Inl e \<Rightarrow> Inl e
      | Inr val \<Rightarrow>
          (case (case gasLimit tx of None \<Rightarrow> Inr None
                 | Some g \<Rightarrow> if g = [] then Inr None
                     else (case toBigInt svc g of Rejects m \<Rightarrow> Inl (InvalidArgument m)
                           | Resolves n \<Rightarrow> Inr (Some n))) of
             Inl e \<Rightarrow> Inl e
           | Inr gas \<Rightarrow> Inr \<lparr>envTo = to tx, envData = data tx, envValue = val, envGasLimit = gas\<rparr>))"

text \<open>
  The method itself (its name cannot start with an underscore here). The parameter
  object is written first (the recipient), then the provider builds the transaction, a
  transaction of the Solana family is refused, the approval is requested, the envelope
  is built, sent and awaited. The middle component of the answer is the parameter
  object as the call leaves it.
\<close>

definition private_swapTokens ::
  "SwapService \<Rightarrow> ISwapProvider \<Rightarrow> SwapParams \<Rightarrow> World \<Rightarrow> (error + SwapResult) \<times> SwapParams \<times> World" where
  "private_swapTokens svc p params0 w =
     (let params = params0\<lparr>recipient := Some (walletAddress (etherService svc))\<rparr>;
          w1 = emit (GetUnsignedTransaction (getName p)) (emit GetWallet w)
      in case getUnsignedTransaction p params of
           Rejects m \<Rightarrow> (Inl (CollaboratorError m), params, w1)
         | Resolves (SolTx instructions) \<Rightarrow> (Inl NotSupportedSigner, params, w1)
         | Resolves (EthTx tx) \<Rightarrow>
             let args = \<lparr>tokenAddress = address (fromToken params), spenderAddress = to tx,
                         approveAmount = MAX_ALLOWANCE\<rparr>;
                 w2 = emit (ApproveERC20IfNot args) w1
             in case approveERC20IfNot (etherService svc) args of
                  Rejects m \<Rightarrow> (Inl (CollaboratorError m), params, w2)
                | Resolves u \<Rightarrow>
                    (case buildEnvelope svc tx of
                       Inl e \<Rightarrow> (Inl e, params, w2)
                     | Inr unsignedTx \<Rightarrow>
                         let (r, w3) = sendAndConfirm svc p unsignedTx w2 in (r, params, w3)))"

section \<open>Quote selection\<close>

text \<open>The callback of \<^verbatim>\<open>quotes.reduce((best, current) => ...)\<close>.\<close>

definition pickBetter :: "ProviderQuote \<Rightarrow> ProviderQuote \<Rightarrow> ProviderQuote" where
  "pickBetter best current =
     (if outputAmount current > outputAmount best then current
      else if outputAmount current = outputAmount best \<and> fee current < fee best then current
      else best)"

text \<open>
  \<^verbatim>\<open>reduce\<close> without an initial value seeds the fold with the first element and runs
  left to right over the rest.
\<close>

fun getBestQuote :: "ProviderQuote list \<Rightarrow> ProviderQuote option" where
  "getBestQuote [] = None"
| "getBestQuote (q # quotes) = Some (foldl pickBetter q quotes)"

text \<open>
  \<open>bestAt qs i\<close>: position \<open>i\<close> of \<open>qs\<close> holds a quote with the largest output
  amount, the smallest fee among those, and no earlier position ties with it on both.
\<close>

definition bestAt :: "ProviderQuote list \<Rightarrow> nat \<Rightarrow> bool" where
  "bestAt qs i \<longleftrightarrow>
     i < length qs \<and>
     (\<forall>q \<in> set qs. outputAmount q \<le> outputAmount (qs ! i)) \<and>
     (\<forall>q \<in> set qs. outputAmount q = outputAmount (qs ! i) \<longrightarrow> fee (qs ! i) \<le> fee q) \<and>
     (\<forall>j < i. \<not> (outputAmount (qs ! j) = outputAmount (qs ! i) \<and> fee (qs ! j) = fee (qs ! i)))"

text \<open>
  \<^verbatim>\<open>_swapTokens\<close> of tee-txn-signer is the same text without the refusal: whatever
  the provider answers, it reads \<^verbatim>\<open>tx.to\<close>, \<^verbatim>\<open>tx.data\<close>, \<^verbatim>\<open>tx.value\<close> and
  \<^verbatim>\<open>tx.gasLimit\<close> unguarded. A transaction of the Solana family has none of these
  properties, so each read gives undefined (\<open>None\<close>), and the arguments that reach the
  signer can be undefined: the signer of this copy, its arguments and its calls have
  types of their own.
\<close>

definition txTo :: "UnsignedSwapTransaction \<Rightarrow> string option" where
  "txTo tx = (case tx of EthTx e \<Rightarrow> Some (to e) | SolTx instructions \<Rightarrow> None)"

definition txData :: "UnsignedSwapTransaction \<Rightarrow> string option" where
  "txData tx = (case tx of EthTx e \<Rightarrow> Some (data e) | SolTx instructions \<Rightarrow> None)"

definition txValue :: "UnsignedSwapTransaction \<Rightarrow> string option" where
  "txValue tx = (case tx of EthTx e \<Rightarrow> txvalue e | SolTx instructions \<Rightarrow> None)"

definition txGasLimit :: "UnsignedSwapTransaction \<Rightarrow> string option" where
  "txGasLimit tx = (case tx of EthTx e \<Rightarrow> gasLimit e | SolTx instructions \<Rightarrow> None)"

record ApproveArgs_tee =
  tokenAddress_tee :: string
  spenderAddress_tee :: "string option"
  approveAmount_tee :: string

record TxEnvelope_tee =
  envTo_tee :: "string option"
  envData_tee :: "string option"
  envValue_tee :: int
  envGasLimit_tee :: "int option"

record EthService_tee =
  walletAddress_tee :: string
  approveERC20IfNot_tee :: "ApproveArgs_tee \<Rightarrow> unit outcome"
  buildAndSendTransaction_tee :: "TxEnvelope_tee \<Rightarrow> string option outcome"
  waitForTransaction_tee :: "string \<Rightarrow> Receipt option outcome"

datatype event_tee =
  GetWallet_tee
| GetUnsignedTransaction_tee string
| ApproveERC20IfNot_tee ApproveArgs_tee
| BuildAndSendTransaction_tee TxEnvelope_tee
| WaitForTransaction_tee string

definition sendAndConfirm_tee ::
  "EthService_tee \<Rightarrow> ISwapProvider \<Rightarrow> TxEnvelope_tee \<Rightarrow> (error + SwapResult) \<times> event_tee list" where
  "sendAndConfirm_tee signer p unsignedTx =
     (let t1 = [BuildAndSendTransaction_tee unsignedTx]
      in case buildAndSendTransaction_tee signer unsignedTx of
           Rejects m \<Rightarrow> (Inl (CollaboratorError m), t1)
         | Resolves None \<Rightarrow> (Inl (HttpException ''Cannot send transaction'' 404), t1)
         | Resolves (Some txHash) \<Rightarrow>
             let t2 = t1 @ [WaitForTransaction_tee txHash]
             in case waitForTransaction_tee signer txHash of
                  Rejects m \<Rightarrow> (Inl (CollaboratorError m), t2)
                | Resolves None \<Rightarrow> (Inl (HttpException ''Cannot find transaction receipt'' 404), t2)
                | Resolves (Some receipt) \<Rightarrow>
                    (Inr \<lparr>transactionHash = receiptHash receipt,
                          status = (if receiptStatus receipt = 1 then ''success'' else ''failed''),
                          resultProvider = getName p\<rparr>, t2))"

definition buildEnvelope_tee ::
  "(string \<Rightarrow> int outcome) \<Rightarrow> UnsignedSwapTransaction \<Rightarrow> error + TxEnvelope_tee" where
  "buildEnvelope_tee toBigInt_tee tx =
     (case (case txValue tx of None \<Rightarrow> Inr 0
            | Some v \<Rightarrow> if v = [] then Inr 0 else parseEther v) of
        Inl e \<Rightarrow> Inl e
      | Inr val \<Rightarrow>
          (case (case txGasLimit tx of None \<Rightarrow> Inr None
                 | Some g \<Rightarrow> if g = [] then Inr None
                     else (case toBigInt_tee g of Rejects m \<Rightarrow> Inl (InvalidArgument m)
                           | Resolves n \<Rightarrow> Inr (Some n))) of
             Inl e \<Rightarrow> Inl e
           | Inr gas \<Rightarrow>
               Inr \<lparr>envTo_tee = txTo tx, envData_tee = txData tx, envValue_tee = val,
                     envGasLimit_tee = gas\<rparr>))"

text \<open>
  The method of tee-txn-signer, with the signer and \<^verbatim>\<open>ethers.toBigInt\<close> as
  parameters. The last component of the answer is the list of the calls it has made.
\<close>

definition private_swapTokens_tee ::
  "EthService_tee \<Rightarrow> (string \<Rightarrow> int outcome) \<Rightarrow> ISwapProvider \<Rightarrow> SwapParams \<Rightarrow>
     (error + SwapResult) \<times> SwapParams \<times> event_tee list" where
  "private_swapTokens_tee signer toBigInt_tee p params0 =
     (let params = params0\<lparr>recipient := Some (walletAddress_tee signer)\<rparr>;
          t1 = [GetWallet_tee, GetUnsignedTransaction_tee (getName p)]
      in case getUnsignedTransaction p params of
           Rejects m \<Rightarrow> (Inl (CollaboratorError m), params, t1)
         | Resolves tx \<Rightarrow>
             let args = \<lparr>tokenAddress_tee = address (fromToken params),
                         spenderAddress_tee = txTo tx, approveAmount_tee = MAX_ALLOWANCE\<rparr>;
                 t2 = t1 @ [ApproveERC20IfNot_tee args]
             in case approveERC20IfNot_tee signer args of
                  Rejects m \<Rightarrow> (Inl (CollaboratorError m), params, t2)
                | Resolves u \<Rightarrow>
                    (case buildEnvelope_tee toBigInt_tee tx of
                       Inl e \<Rightarrow> (Inl e, params, t2)
                     | Inr unsignedTx \<Rightarrow>
                         let (r, t3) = sendAndConfirm_tee signer p unsignedTx
                         in (r, params, t2 @ t3)))"

section \<open>The entry points\<close>

text \<open>
  \<^verbatim>\<open>swapTokensByProvider\<close>: the loop over the active providers stops at the first
  one whose name is the requested one.
\<close>

definition swapTokensByProvider ::
  "SwapService \<Rightarrow> string \<Rightarrow> SwapRequest \<Rightarrow> World \<Rightarrow> (error + SwapResult) \<times> World" where
  "swapTokensByProvider svc name request w =
     (let (targetProviders, w1) = getActiveProviders svc w
      in case find (\<lambda>checkingProvider. getName checkingProvider = name) targetProviders of
           None \<Rightarrow> (Inl (UnsupportedProvider name), w1)
         | Some targetProvider \<Rightarrow>
             (case createSwapParams svc request w1 of
                (Inl e, w2) \<Rightarrow> (Inl e, w2)
              | (Inr params, w2) \<Rightarrow>
                  let (r, params', w3) = private_swapTokens svc targetProvider params w2
                  in (r, w3)))"

text \<open>
  \<^verbatim>\<open>swapTokens\<close>. The middle component of the answer is the parameter object of the
  request as the request leaves it (\<open>None\<close> when the normalizer failed).
\<close>

definition swapTokens ::
  "SwapService \<Rightarrow> SwapRequest \<Rightarrow> World \<Rightarrow> (error + SwapResult) \<times> SwapParams option \<times> World" where
  "swapTokens svc request w =
     (case createSwapParams svc request w of
        (Inl e, w1) \<Rightarrow> (Inl e, None, w1)
      | (Inr params, w1) \<Rightarrow>
          (case getQuotesFromProviders svc params w1 of
             (Inl e, w2) \<Rightarrow> (Inl e, Some params, w2)
           | (Inr quotes, w2) \<Rightarrow>
               (case getBestQuote quotes of
                  None \<Rightarrow>
                    let (activeProviders, w3) = getActiveProviders svc w2
                    in (Inl (NoValidQuote (ProviderObjects activeProviders)), Some params, w3)
                | Some bestQuote \<Rightarrow>
                    let (r, params', w3) = private_swapTokens svc (provider bestQuote) params w2
                    in (r, Some params', w3))))"

text \<open>
  \<^verbatim>\<open>getQuote\<close> of meta-swap-api. The strings of the answer are given by the numbers
  they denote: \<^verbatim>\<open>outputAmount\<close> and \<^verbatim>\<open>estimatedGas\<close> are printed with
  \<^verbatim>\<open>toString(10)\<close>, \<^verbatim>\<open>fee\<close> with \<^verbatim>\<open>toString()\<close>, which does not round, and
  \<^verbatim>\<open>normalAmountOut\<close> is \<^verbatim>\<open>formatUnits\<close> of the print of \<^verbatim>\<open>outputAmount\<close>.
\<close>

record QuoteResult =
  amountOut :: BigNumber
  normalAmountOut :: rat
  quoteProvider :: string
  quoteFee :: BigNumber
  quoteEstimatedGas :: "BigNumber option"

definition getQuote ::
  "SwapService \<Rightarrow> SwapRequest \<Rightarrow> World \<Rightarrow> (error + QuoteResult) \<times> SwapParams option \<times> World" where
  "getQuote svc request w =
     (case createSwapParams svc request w of
        (Inl e, w1) \<Rightarrow> (Inl e, None, w1)
      | (Inr params, w1) \<Rightarrow>
          (case getQuotesFromProviders svc params w1 of
             (Inl e, w2) \<Rightarrow> (Inl e, Some params, w2)
           | (Inr quotes, w2) \<Rightarrow>
               (case getBestQuote quotes of
                  None \<Rightarrow>
                    let (activeProviders, w3) = getActiveProviders svc w2
                    in (Inl (NoValidQuote (ProviderNames (map getName activeProviders))),
                        Some params, w3)
                | Some bestQuote \<Rightarrow>
                    (case formatUnits (toString10 (outputAmount bestQuote))
                            (decimals (toToken params)) of
                       Inl e \<Rightarrow> (Inl e, Some params, w2)
                     | Inr normal \<Rightarrow>
                         (Inr \<lparr>amountOut = toString10 (outputAmount bestQuote),
                               normalAmountOut = normal,
                               quoteProvider = getName (provider bestQuote),
                               quoteFee = fee bestQuote,
                               quoteEstimatedGas = map_option toString10 (estimatedGas bestQuote)\<rparr>,
                          Some params, w2)))))"

section \<open>Token search\<close>

text \<open>
  A pair of the DexScreener answer, as far as \<^verbatim>\<open>getTokenInfos\<close> reads it. A missing
  or falsy \<^verbatim>\<open>liquidity\<close>, \<^verbatim>\<open>liquidity.usd\<close>, \<^verbatim>\<open>baseToken\<close> or
  \<^verbatim>\<open>baseToken.address\<close> is \<open>None\<close>; the empty address is falsy as well.
\<close>

record BaseToken =
  baseAddress :: "string option"
  baseSymbol :: string

record DexPair =
  pairChainId :: string
  baseToken :: "BaseToken option"
  liquidityUsd :: "rat option option"

text \<open>
  What \<^verbatim>\<open>dexScreenChainIdMap[dexScreenChainId]\<close> evaluates to when it is not
  undefined. The map is a plain object literal, so besides its two own keys,
  which give members of \<^verbatim>\<open>ChainId\<close>, every property name of
  \<^verbatim>\<open>Object.prototype\<close> gives the inherited member of that name, a function (or,
  for \<^verbatim>\<open>__proto__\<close>, the prototype object): a truthy value.
\<close>

datatype ChainIdValue = Member ChainId | Inherited string

definition objectPrototypeKeys :: "string list" where
  "objectPrototypeKeys =
     [''constructor'', ''__defineGetter__'', ''__defineSetter__'', ''hasOwnProperty'',
      ''__lookupGetter__'', ''__lookupSetter__'', ''isPrototypeOf'', ''propertyIsEnumerable'',
      ''toString'', ''valueOf'', ''__proto__'', ''toLocaleString'']"

text \<open>
  \<^verbatim>\<open>TokenInfo\<close> as \<^verbatim>\<open>getTokenInfos\<close> builds it; the field names carry a suffix
  because they are those of \<open>TokenRef\<close>.
\<close>

record TokenInfo =
  address_info :: string
  symbol_info :: string
  decimals_info :: nat
  chainId_info :: ChainIdValue

text \<open>
  The answer of \<^verbatim>\<open>fetch\<close>: \<^verbatim>\<open>response.ok\<close>, \<^verbatim>\<open>response.statusText\<close> and what
  \<^verbatim>\<open>response.json()\<close> resolves to (\<open>None\<close> when the body has no \<^verbatim>\<open>pairs\<close>).
\<close>

record DexResponse =
  ok :: bool
  statusText :: string
  json :: "DexPair list option outcome"

definition dexScreenChainIdMap :: "string \<Rightarrow> ChainIdValue option" where
  "dexScreenChainIdMap k =
     (if k = ''solana'' then Some (Member SOL)
      else if k = ''ethereum'' then Some (Member ETHEREUM)
      else if k \<in> set objectPrototypeKeys then Some (Inherited k)
      else None)"

definition highLiquidity :: "DexPair \<Rightarrow> bool" where
  "highLiquidity pair = (case liquidityUsd pair of Some (Some usd) \<Rightarrow> usd \<ge> 50000 | _ \<Rightarrow> False)"

text \<open>
  The callback of \<^verbatim>\<open>highLiquidityPairs.forEach\<close>. \<^verbatim>\<open>tokenMap\<close> is a
  \<^verbatim>\<open>Map\<close>, which keeps its keys in insertion order: an association list, to which a
  new key is appended.
\<close>

definition addPair :: "(string \<times> TokenInfo) list \<Rightarrow> DexPair \<Rightarrow> (string \<times> TokenInfo) list" where
  "addPair tokenMap pair =
     (case baseToken pair of
        None \<Rightarrow> tokenMap
      | Some bt \<Rightarrow>
          (case baseAddress bt of
             None \<Rightarrow> tokenMap
           | Some a \<Rightarrow>
               if a \<noteq> [] \<and> map_of tokenMap a = None then
                 (case dexScreenChainIdMap (pairChainId pair) of
                    None \<Rightarrow> tokenMap
                  | Some c \<Rightarrow>
                      tokenMap @ [(a, \<lparr>address_info = a, symbol_info = baseSymbol bt,
                                        decimals_info = 18, chainId_info = c\<rparr>)])
               else tokenMap))"

definition getTokenInfos :: "(string \<Rightarrow> DexResponse outcome) \<Rightarrow> string \<Rightarrow> error + TokenInfo list" where
  "getTokenInfos fetch searchString =
     (case fetch searchString of
        Rejects m \<Rightarrow> Inl (CollaboratorError m)
      | Resolves response \<Rightarrow>
          if \<not> ok response then Inl (CollaboratorError (''DexScreener API error: '' @ statusText response))
          else (case json response of
                  Rejects m \<Rightarrow> Inl (CollaboratorError m)
                | Resolves body \<Rightarrow>
                    let pairs = (case body of None \<Rightarrow> [] | Some ps \<Rightarrow> ps);
                        highLiquidityPairs = filter highLiquidity pairs;
                        tokenMap = foldl addPair [] highLiquidityPairs
                    in Inr (map snd tokenMap)))"

section \<open>Notions the properties are stated with\<close>

text \<open>A provider is active at poll \<open>k\<close> when its \<^verbatim>\<open>isInit()\<close> resolves to true.\<close>

definition isActive :: "nat \<Rightarrow> ISwapProvider \<Rightarrow> bool" where
  "isActive k p \<longleftrightarrow> isInit p k = Resolves True"

text \<open>
  The entry a provider owes to an aggregation round: its quote, tagged with the
  provider, when the pair is supported and the quote call resolves; nothing otherwise.
\<close>

definition providerEntry :: "SwapParams \<Rightarrow> ISwapProvider \<Rightarrow> ProviderQuote option" where
  "providerEntry params p =
     (if isSwapSupported p (fromToken params) (toToken params) = Resolves True
      then (case getSwapQuote p params of
              Resolves quote \<Rightarrow> Some (SwapQuote.extend quote \<lparr>provider = p\<rparr>)
            | Rejects m \<Rightarrow> None)
      else None)"

text \<open>The events that are calls of the signer's approval and of its submit operation.\<close>

definition isApprove :: "event \<Rightarrow> bool" where
  "isApprove e = (case e of ApproveERC20IfNot a \<Rightarrow> True | _ \<Rightarrow> False)"

definition isSubmit :: "event \<Rightarrow> bool" where
  "isSubmit e = (case e of BuildAndSendTransaction t \<Rightarrow> True | _ \<Rightarrow> False)"

text \<open>
  Token search. The address of the base token of a pair; a pair qualifies when its
  liquidity is at least 50000 USD, its base token has a non-empty address and its chain
  name gives a value in \<open>dexScreenChainIdMap\<close>; \<open>tokenOf\<close> is the entry built from a pair; \<open>responsePairs\<close> is the
  list of pairs of the answer to a query (empty when the body has none).
\<close>

definition pairAddress :: "DexPair \<Rightarrow> string option" where
  "pairAddress pair = (case baseToken pair of None \<Rightarrow> None | Some bt \<Rightarrow> baseAddress bt)"

definition contributes :: "DexPair \<Rightarrow> bool" where
  "contributes pair \<longleftrightarrow>
     pairAddress pair \<noteq> None \<and> pairAddress pair \<noteq> Some []
     \<and> dexScreenChainIdMap (pairChainId pair) \<noteq> None"

definition qualifies :: "DexPair \<Rightarrow> bool" where
  "qualifies pair \<longleftrightarrow> highLiquidity pair \<and> contributes pair"

definition tokenOf :: "DexPair \<Rightarrow> TokenInfo" where
  "tokenOf pair =
     \<lparr>address_info = the (pairAddress pair),
      symbol_info = baseSymbol (the (baseToken pair)),
      decimals_info = 18,
      chainId_info = the (dexScreenChainIdMap (pairChainId pair))\<rparr>"

text \<open>
  The pairs a search keeps, in the order of the answer: each qualifying pair whose
  address no earlier kept pair has (\<open>seen\<close> holds the addresses kept so far).
\<close>

fun firstQualifying :: "string list \<Rightarrow> DexPair list \<Rightarrow> DexPair list" where
  "firstQualifying seen [] = []"
| "firstQualifying seen (pair # pairs) =
     (if qualifies pair \<and> the (pairAddress pair) \<notin> set seen
      then pair # firstQualifying (seen @ [the (pairAddress pair)]) pairs
      else firstQualifying seen pairs)"

definition responsePairs :: "(string \<Rightarrow> DexResponse outcome) \<Rightarrow> string \<Rightarrow> DexPair list" where
  "responsePairs fetch searchString =
     (case fetch searchString of
        Rejects m \<Rightarrow> []
      | Resolves response \<Rightarrow>
          (case json response of Resolves (Some ps) \<Rightarrow> ps | _ \<Rightarrow> []))"

text \<open>
  The invariant of the loop of the token search: the keys are distinct, every entry is built from the first
  contributing pair with its address, and every contributing pair seen so far has its
  address among the keys.
\<close>

definition tokenMapInv :: "DexPair list \<Rightarrow> (string \<times> TokenInfo) list \<Rightarrow> bool" where
  "tokenMapInv ps m \<longleftrightarrow>
     distinct (map fst m)
     \<and> (\<forall>(a, t) \<in> set m. \<exists>pair.
          find (\<lambda>p. contributes p \<and> pairAddress p = Some a) ps = Some pair \<and> t = tokenOf pair)
     \<and> (\<forall>p \<in> set ps. contributes p \<longrightarrow> the (pairAddress p) \<in> fst ` set m)"

section \<open>Concrete objects for the worked examples\<close>

definition world0 :: World where
  "world0 = \<lparr>polls = 0, trace = []\<rparr>"

definition exampleTx :: EthUnsignedSwapTransaction where
  "exampleTx = \<lparr>to = ''0xRouter'', data = ''0xcalldata'', txvalue = None, gasLimit = None\<rparr>"

text \<open>
  A provider with the given name, availability answers, settle times of the
  availability check, pair support, quote and transaction.
\<close>

definition exampleProvider ::
  "string \<Rightarrow> (nat \<Rightarrow> bool outcome) \<Rightarrow> (nat \<Rightarrow> nat) \<Rightarrow> bool outcome \<Rightarrow> SwapQuote outcome \<Rightarrow>
     UnsignedSwapTransaction outcome \<Rightarrow> ISwapProvider" where
  "exampleProvider name init latency supported quote tx =
     \<lparr>getName = name, isInit = init, isInitLatency = latency,
      isSwapSupported = (\<lambda>a b. supported), getSwapQuote = (\<lambda>params. quote),
      quoteLatency = 0, getUnsignedTransaction = (\<lambda>params. tx)\<rparr>"

definition exampleQuote :: "rat \<Rightarrow> rat \<Rightarrow> SwapQuote" where
  "exampleQuote out f = \<lparr>outputAmount = out, fee = f, estimatedGas = None\<rparr>"

definition okx :: ISwapProvider where
  "okx = exampleProvider ''okx'' (\<lambda>k. Resolves True) (\<lambda>k. 0) (Resolves True)
           (Resolves (exampleQuote 1000 5)) (Resolves (EthTx exampleTx))"

definition kyber :: ISwapProvider where
  "kyber = exampleProvider ''kyber'' (\<lambda>k. Resolves True) (\<lambda>k. 0) (Resolves True)
             (Resolves (exampleQuote 1000 3)) (Resolves (EthTx exampleTx))"

definition exampleSigner :: EthService where
  "exampleSigner =
     \<lparr>walletAddress = ''0xWallet'',
      approveERC20IfNot = (\<lambda>args. Resolves ()),
      buildAndSendTransaction = (\<lambda>tx. Resolves (Some ''0xhash'')),
      waitForTransaction = (\<lambda>h. Resolves (Some \<lparr>receiptHash = h, receiptStatus = 1\<rparr>))\<rparr>"

definition exampleService :: "ISwapProvider list \<Rightarrow> SwapService" where
  "exampleService ps =
     \<lparr>providers = ps, etherService = exampleSigner,
      getDecimals = (\<lambda>a c. Resolves 6), toBigInt = (\<lambda>s. Rejects ''invalid BigNumberish string'')\<rparr>"

definition exampleRequest :: "string \<Rightarrow> SwapRequest" where
  "exampleRequest amt =
     \<lparr>chainIn = None, tokenIn = ''0xUSDC'', chainOut = Some ETHEREUM, tokenOut = ''0xUSDT'',
      normalAmountIn = amt, slippage = None\<rparr>"

definition exampleParams :: SwapParams where
  "exampleParams =
     \<lparr>fromToken = \<lparr>address = ''0xUSDC'', chainId = ETHEREUM, decimals = 6\<rparr>,
      toToken = \<lparr>address = ''0xUSDT'', chainId = ETHEREUM, decimals = 6\<rparr>,
      amount = 1500000, slippageTolerance = 1 / 2, recipient = None\<rparr>"

text \<open>The two quotes of the tie scenario: equal output, fees 5 and 3.\<close>

definition exampleQuotes :: "ProviderQuote list" where
  "exampleQuotes =
     [SwapQuote.extend (exampleQuote 1000 5) \<lparr>provider = okx\<rparr>,
      SwapQuote.extend (exampleQuote 1000 3) \<lparr>provider = kyber\<rparr>]"

text \<open>A provider whose availability check settles late, and one whose quote call rejects.\<close>

definition oneInchV6 :: ISwapProvider where
  "oneInchV6 = exampleProvider ''1inch'' (\<lambda>k. Resolves True) (\<lambda>k. 2) (Resolves True)
                 (Resolves (exampleQuote 990 1)) (Resolves (EthTx exampleTx))"

definition openOcean :: ISwapProvider where
  "openOcean = exampleProvider ''openocean'' (\<lambda>k. Resolves True) (\<lambda>k. 0) (Resolves True)
                 (Rejects ''request timed out'') (Resolves (EthTx exampleTx))"

text \<open>A provider that answers with a transaction of the Solana family.\<close>

definition solanaProvider :: ISwapProvider where
  "solanaProvider = exampleProvider ''raydium'' (\<lambda>k. Resolves True) (\<lambda>k. 0) (Resolves True)
                      (Resolves (exampleQuote 1000 5)) (Resolves (SolTx [''swap'']))"


text \<open>The world after the normalizer has run on \<open>exampleRequest\<close> in \<open>world0\<close>.\<close>

definition world1 :: World where
  "world1 = \<lparr>polls = 0, trace = [GetDecimals ''0xUSDC'' ETHEREUM, GetDecimals ''0xUSDT'' ETHEREUM]\<rparr>"

text \<open>A provider that is always available and does not support the pair.\<close>

definition noPair :: ISwapProvider where
  "noPair = exampleProvider ''nopair'' (\<lambda>k. Resolves True) (\<lambda>k. 0)
              (Resolves False) (Rejects ''unsupported pair'') (Resolves (EthTx exampleTx))"

text \<open>Pairs of a search answer, and a \<^verbatim>\<open>fetch\<close> that answers with them.\<close>

definition examplePair :: "string \<Rightarrow> string \<Rightarrow> string \<Rightarrow> rat \<Rightarrow> DexPair" where
  "examplePair chain addr name usd =
     \<lparr>pairChainId = chain, baseToken = Some \<lparr>baseAddress = Some addr, baseSymbol = name\<rparr>,
      liquidityUsd = Some (Some usd)\<rparr>"

definition examplePairs :: "DexPair list" where
  "examplePairs =
     [examplePair ''bsc'' ''0xAAA'' ''AAA'' 900000,
      examplePair ''ethereum'' ''0xAAA'' ''AAA'' 60000,
      examplePair ''solana'' ''0xAAA'' ''AAA'' 70000,
      examplePair ''solana'' ''So111'' ''SOL'' 100,
      examplePair ''solana'' ''So222'' ''WSOL'' 80000]"

text \<open>
  An answer whose first pair names a property of \<^verbatim>\<open>Object.prototype\<close> as its chain.
\<close>

definition inheritedKeyPairs :: "DexPair list" where
  "inheritedKeyPairs =
     [examplePair ''toString'' ''0xAAA'' ''BAD'' 60000,
      examplePair ''ethereum'' ''0xAAA'' ''AAA'' 60000]"

definition exampleFetch :: "string \<Rightarrow> DexResponse outcome" where
  "exampleFetch searchString =
     Resolves \<lparr>ok = True, statusText = ''OK'', json = Resolves (Some examplePairs)\<rparr>"

text \<open>A signer of the tee-txn-signer copy that accepts every call.\<close>

definition exampleSigner_tee :: EthService_tee where
  "exampleSigner_tee =
     \<lparr>walletAddress_tee = ''0xWallet'',
      approveERC20IfNot_tee = (\<lambda>args. Resolves ()),
      buildAndSendTransaction_tee = (\<lambda>tx. Resolves (Some ''0xhash'')),
      waitForTransaction_tee = (\<lambda>h. Resolves (Some \<lparr>receiptHash = h, receiptStatus = 1\<rparr>))\<rparr>"

definition exampleToBigInt :: "string \<Rightarrow> int outcome" where
  "exampleToBigInt s = Rejects ''invalid BigNumberish string''"

section \<open>Properties of the selection\<close>

lemma bestAt_single: "bestAt [q] 0"
  by (simp add: bestAt_def)

lemma bestAt_snoc:
  assumes "bestAt qs i"
  shows "\<exists>k. bestAt (qs @ [c]) k \<and> (qs @ [c]) ! k = pickBetter (qs ! i) c"
proof -
  from assms have i: "i < length qs"
    and mx: "\<And>q. q \<in> set qs \<Longrightarrow> outputAmount q \<le> outputAmount (qs ! i)"
    and mn: "\<And>q. q \<in> set qs \<Longrightarrow> outputAmount q = outputAmount (qs ! i) \<Longrightarrow> fee (qs ! i) \<le> fee q"
    and fst: "\<And>j. j < i \<Longrightarrow> \<not> (outputAmount (qs ! j) = outputAmount (qs ! i) \<and> fee (qs ! j) = fee (qs ! i))"
    by (auto simp: bestAt_def)
  show ?thesis
  proof (cases "pickBetter (qs ! i) c = c")
    case True
    then have win: "outputAmount c > outputAmount (qs ! i)
        \<or> (outputAmount c = outputAmount (qs ! i) \<and> fee c < fee (qs ! i))
        \<or> c = qs ! i"
      by (auto simp: pickBetter_def split: if_splits)
    show ?thesis
    proof (cases "c = qs ! i")
      case same: True
      have "bestAt (qs @ [c]) i"
        unfolding bestAt_def using i mx mn fst same
        by (auto simp: nth_append)
      moreover have "(qs @ [c]) ! i = pickBetter (qs ! i) c"
        using i same True by (simp add: nth_append)
      ultimately show ?thesis by blast
    next
      case False
      with win have strict: "outputAmount c > outputAmount (qs ! i)
        \<or> (outputAmount c = outputAmount (qs ! i) \<and> fee c < fee (qs ! i))" by blast
      have "bestAt (qs @ [c]) (length qs)"
        unfolding bestAt_def
      proof (intro conjI)
        show "length qs < length (qs @ [c])" by simp
        show "\<forall>q\<in>set (qs @ [c]). outputAmount q \<le> outputAmount ((qs @ [c]) ! length qs)"
          using strict mx by (fastforce simp: nth_append)
        show "\<forall>q\<in>set (qs @ [c]). outputAmount q = outputAmount ((qs @ [c]) ! length qs) \<longrightarrow>
            fee ((qs @ [c]) ! length qs) \<le> fee q"
          using strict mx mn by (fastforce simp: nth_append)
        show "\<forall>j<length qs. \<not> (outputAmount ((qs @ [c]) ! j) = outputAmount ((qs @ [c]) ! length qs)
            \<and> fee ((qs @ [c]) ! j) = fee ((qs @ [c]) ! length qs))"
        proof (intro allI impI)
          fix j assume j: "j < length qs"
          then have "qs ! j \<in> set qs" by simp
          with strict mx [of "qs ! j"] mn [of "qs ! j"] j
          show "\<not> (outputAmount ((qs @ [c]) ! j) = outputAmount ((qs @ [c]) ! length qs)
            \<and> fee ((qs @ [c]) ! j) = fee ((qs @ [c]) ! length qs))"
            by (fastforce simp: nth_append)
        qed
      qed
      moreover have "(qs @ [c]) ! length qs = pickBetter (qs ! i) c"
        using True by simp
      ultimately show ?thesis by blast
    qed
  next
    case False
    then have keep: "pickBetter (qs ! i) c = qs ! i"
      and le: "outputAmount c \<le> outputAmount (qs ! i)"
      and fe: "outputAmount c = outputAmount (qs ! i) \<Longrightarrow> fee (qs ! i) \<le> fee c"
      by (auto simp: pickBetter_def split: if_splits)
    have "bestAt (qs @ [c]) i"
      unfolding bestAt_def using i mx mn fst le fe
      by (auto simp: nth_append)
    moreover have "(qs @ [c]) ! i = pickBetter (qs ! i) c"
      using i keep by (simp add: nth_append)
    ultimately show ?thesis by blast
  qed
qed

lemma foldl_pickBetter_bestAt:
  "\<exists>i. bestAt (q # qs) i \<and> (q # qs) ! i = foldl pickBetter q qs"
proof (induction qs rule: rev_induct)
  case Nil
  have "bestAt [q] 0 \<and> [q] ! 0 = foldl pickBetter q []"
    by (simp add: bestAt_single)
  then show ?case by blast
next
  case (snoc c qs)
  then obtain i where i: "bestAt (q # qs) i" "(q # qs) ! i = foldl pickBetter q qs"
    by blast
  from bestAt_snoc [OF i(1), of c] obtain k where
    "bestAt ((q # qs) @ [c]) k" "((q # qs) @ [c]) ! k = pickBetter ((q # qs) ! i) c"
    by blast
  with i(2) show ?case by auto
qed

text \<open>
  C1. On a non-empty list \<open>getBestQuote\<close> returns a quote of the list whose output
  amount is at least that of every quote, whose fee is minimal among the quotes with that
  output amount, and which stands at the earliest position among the quotes that tie
  with it on output amount and fee.
\<close>

theorem getBestQuote_best:
  "quotes \<noteq> [] \<Longrightarrow>
     \<exists>b i. getBestQuote quotes = Some b \<and> i < length quotes \<and> quotes ! i = b \<and>
       (\<forall>q \<in> set quotes. outputAmount q \<le> outputAmount b) \<and>
       (\<forall>q \<in> set quotes. outputAmount q = outputAmount b \<longrightarrow> fee b \<le> fee q) \<and>
       (\<forall>j < i. \<not> (outputAmount (quotes ! j) = outputAmount b \<and> fee (quotes ! j) = fee b))"
proof -
  assume "quotes \<noteq> []"
  then obtain q qs where qs: "quotes = q # qs" by (cases quotes) auto
  from foldl_pickBetter_bestAt [of q qs] obtain i where
    i: "bestAt (q # qs) i" "(q # qs) ! i = foldl pickBetter q qs" by blast
  show ?thesis
    using i unfolding qs bestAt_def
    by (intro exI [of _ "foldl pickBetter q qs"] exI [of _ i]) simp
qed

theorem getBestQuote_best_witness:
  "exampleQuotes \<noteq> [] \<and>
   (\<exists>b i. getBestQuote exampleQuotes = Some b \<and> i < length exampleQuotes \<and> exampleQuotes ! i = b \<and>
       (\<forall>q \<in> set exampleQuotes. outputAmount q \<le> outputAmount b) \<and>
       (\<forall>q \<in> set exampleQuotes. outputAmount q = outputAmount b \<longrightarrow> fee b \<le> fee q) \<and>
       (\<forall>j < i. \<not> (outputAmount (exampleQuotes ! j) = outputAmount b \<and> fee (exampleQuotes ! j) = fee b)))"
proof -
  have ne: "exampleQuotes \<noteq> []"
    by (simp add: exampleQuotes_def)
  from getBestQuote_best [OF ne] show ?thesis
    using ne by blast
qed

text \<open>The tie scenario run: the second quote, of the lower fee, is selected.\<close>

lemma getBestQuote_example: "getBestQuote exampleQuotes = Some (exampleQuotes ! 1)"
  by (simp add: exampleQuotes_def pickBetter_def exampleQuote_def SwapQuote.defs)

section \<open>Properties of the provider pool\<close>

lemma initCallback_step:
  "initCallback k acc p = acc @ (if isActive k p then [p] else [])"
  by (cases "isInit p k") (simp_all add: initCallback_def isActive_def)

lemma foldl_initCallback:
  "foldl (initCallback k) acc ps = acc @ filter (isActive k) ps"
proof (induction ps arbitrary: acc)
  case Nil
  show ?case by simp
next
  case (Cons p ps)
  have "foldl (initCallback k) acc (p # ps) = foldl (initCallback k) (initCallback k acc p) ps"
    by simp
  also have "\<dots> = initCallback k acc p @ filter (isActive k) ps"
    by (rule Cons.IH)
  also have "\<dots> = acc @ filter (isActive k) (p # ps)"
    by (simp add: initCallback_step)
  finally show ?case .
qed

lemma getActiveProviders_fst:
  "fst (getActiveProviders svc w) =
     filter (isActive (polls w)) (sort_key (\<lambda>p. isInitLatency p (polls w)) (providers svc))"
  by (simp add: getActiveProviders_def Let_def foldl_initCallback)

lemma getActiveProviders_snd:
  "snd (getActiveProviders svc w) = w\<lparr>polls := Suc (polls w)\<rparr>"
  by (simp add: getActiveProviders_def Let_def)

text \<open>
  C3, as the claim states it, fails: with two available providers of which the second
  settles first, the returned list is not the registration-order sub-list.
\<close>

theorem getActiveProviders_order_counterexample:
  "fst (getActiveProviders (exampleService [oneInchV6, okx]) world0)
     \<noteq> filter (isActive (polls world0)) (providers (exampleService [oneInchV6, okx]))"
  by (simp add: getActiveProviders_fst exampleService_def world0_def isActive_def
      oneInchV6_def okx_def exampleProvider_def)

text \<open>
  C3, amended. \<open>getActiveProviders\<close> returns the providers whose \<^verbatim>\<open>isInit()\<close>
  resolves to true, each as often as it is registered and none else (a provider whose
  check rejects or answers false is left out), in the order in which the checks settle;
  when the checks settle in registration order, the list is the registration-order
  sub-list.
\<close>

theorem getActiveProviders_settle_order:
  "fst (getActiveProviders svc w) =
     filter (isActive (polls w)) (sort_key (\<lambda>p. isInitLatency p (polls w)) (providers svc))
   \<and> mset (fst (getActiveProviders svc w)) = filter_mset (isActive (polls w)) (mset (providers svc))
   \<and> (sorted (map (\<lambda>p. isInitLatency p (polls w)) (providers svc)) \<longrightarrow>
        fst (getActiveProviders svc w) = filter (isActive (polls w)) (providers svc))"
proof (intro conjI impI)
  show "fst (getActiveProviders svc w) =
     filter (isActive (polls w)) (sort_key (\<lambda>p. isInitLatency p (polls w)) (providers svc))"
    by (rule getActiveProviders_fst)
  show "mset (fst (getActiveProviders svc w)) = filter_mset (isActive (polls w)) (mset (providers svc))"
    by (simp add: getActiveProviders_fst)
next
  assume "sorted (map (\<lambda>p. isInitLatency p (polls w)) (providers svc))"
  then have "sort_key (\<lambda>p. isInitLatency p (polls w)) (providers svc) = providers svc"
    by (rule sort_key_id_if_sorted)
  then show "fst (getActiveProviders svc w) = filter (isActive (polls w)) (providers svc)"
    by (simp add: getActiveProviders_fst)
qed

theorem getActiveProviders_settle_order_witness:
  "sorted (map (\<lambda>p. isInitLatency p (polls world0)) (providers (exampleService [okx, kyber])))
   \<and> fst (getActiveProviders (exampleService [okx, kyber]) world0) = [okx, kyber]"
proof -
  have s: "sorted (map (\<lambda>p. isInitLatency p (polls world0)) (providers (exampleService [okx, kyber])))"
    by (simp add: exampleService_def okx_def kyber_def exampleProvider_def)
  have f: "filter (isActive (polls world0)) (providers (exampleService [okx, kyber])) = [okx, kyber]"
    by (simp add: exampleService_def isActive_def okx_def kyber_def exampleProvider_def)
  have r: "fst (getActiveProviders (exampleService [okx, kyber]) world0)
      = filter (isActive (polls world0)) (providers (exampleService [okx, kyber]))"
    using getActiveProviders_settle_order [of "exampleService [okx, kyber]" world0] s by blast
  show ?thesis
    using s r f by (simp only: simp_thms)
qed

section \<open>Properties of the aggregator\<close>

lemma foldl_quoteCallback:
  "foldl (quoteCallback params) acc ps = acc @ List.map_filter (providerEntry params) ps"
proof (induction ps arbitrary: acc)
  case Nil
  show ?case by (simp add: List.map_filter_simps)
next
  case (Cons p ps)
  have step: "quoteCallback params acc p =
      acc @ (case providerEntry params p of None \<Rightarrow> [] | Some q \<Rightarrow> [q])"
    by (cases "isSwapSupported p (fromToken params) (toToken params)";
        cases "getSwapQuote p params")
       (auto simp: quoteCallback_def providerEntry_def)
  show ?case
    by (cases "providerEntry params p") (simp_all add: Cons.IH step List.map_filter_simps)
qed

lemma getQuotesFromProviders_eq:
  "getQuotesFromProviders svc params w =
     (Inr (List.map_filter (providerEntry params) (sort_key quoteLatency (fst (getActiveProviders svc w)))),
      snd (getActiveProviders svc w))"
  by (simp add: getQuotesFromProviders_def Let_def foldl_quoteCallback split: prod.splits)

lemma length_filter_sort_key:
  "length (filter P (sort_key g xs)) = length (filter P xs)"
proof -
  have "mset (filter P (sort_key g xs)) = mset (filter P xs)"
    by simp
  then show ?thesis
    by (metis size_mset)
qed

lemma mset_map_filter_sort_key:
  "mset (List.map_filter f (sort_key g xs)) = mset (List.map_filter f xs)"
  by (simp add: List.map_filter_def)

text \<open>
  C2. \<open>getQuotesFromProviders\<close> never raises; its result holds, for every active
  provider, exactly the entry that provider owes (its tagged quote when the pair is
  supported and the quote call resolves, nothing when a call rejects or the pair is
  unsupported), whatever the other providers do.
\<close>

theorem getQuotesFromProviders_isolated:
  "\<exists>quotes. getQuotesFromProviders svc params w = (Inr quotes, snd (getActiveProviders svc w))
     \<and> mset quotes = mset (List.map_filter (providerEntry params) (fst (getActiveProviders svc w)))
     \<and> length quotes =
         length (filter (\<lambda>p. providerEntry params p \<noteq> None) (fst (getActiveProviders svc w)))
     \<and> (\<forall>p \<in> set (fst (getActiveProviders svc w)).
          \<forall>q. providerEntry params p = Some q \<longrightarrow> q \<in> set quotes)
     \<and> (\<forall>q \<in> set quotes. \<exists>p \<in> set (fst (getActiveProviders svc w)).
          providerEntry params p = Some q)"
proof -
  let ?active = "fst (getActiveProviders svc w)"
  let ?quotes = "List.map_filter (providerEntry params) (sort_key quoteLatency ?active)"
  have m: "mset ?quotes = mset (List.map_filter (providerEntry params) ?active)"
    by (rule mset_map_filter_sort_key)
  have l: "length ?quotes = length (filter (\<lambda>p. providerEntry params p \<noteq> None) ?active)"
    by (simp only: List.map_filter_def length_map length_filter_sort_key)
  have s: "set ?quotes = {q. \<exists>p \<in> set ?active. providerEntry params p = Some q}"
    by (force simp: List.map_filter_def image_iff)
  show ?thesis
    using m l s by (intro exI [of _ ?quotes]) (auto simp: getQuotesFromProviders_eq)
qed

text \<open>
  The scenario of three providers of which one rejects its quote call: two entries.
\<close>

theorem getQuotesFromProviders_isolated_witness:
  "\<exists>quotes. getQuotesFromProviders (exampleService [okx, openOcean, kyber]) exampleParams world0
       = (Inr quotes, snd (getActiveProviders (exampleService [okx, openOcean, kyber]) world0))
     \<and> length quotes = 2
     \<and> okx \<in> set (fst (getActiveProviders (exampleService [okx, openOcean, kyber]) world0))
     \<and> SwapQuote.extend (exampleQuote 1000 5) \<lparr>provider = okx\<rparr> \<in> set quotes"
proof -
  let ?svc = "exampleService [okx, openOcean, kyber]"
  have a: "fst (getActiveProviders ?svc world0) = [okx, openOcean, kyber]"
    by (simp add: getActiveProviders_fst exampleService_def world0_def isActive_def
        okx_def openOcean_def kyber_def exampleProvider_def)
  have e1: "providerEntry exampleParams okx = Some (SwapQuote.extend (exampleQuote 1000 5) \<lparr>provider = okx\<rparr>)"
    by (simp add: providerEntry_def okx_def exampleProvider_def)
  have e2: "providerEntry exampleParams openOcean = None"
    by (simp add: providerEntry_def openOcean_def exampleProvider_def)
  have e3: "providerEntry exampleParams kyber \<noteq> None"
    by (simp add: providerEntry_def kyber_def exampleProvider_def)
  from getQuotesFromProviders_isolated [of ?svc exampleParams world0]
  obtain quotes where q:
    "getQuotesFromProviders ?svc exampleParams world0 = (Inr quotes, snd (getActiveProviders ?svc world0))"
    "length quotes = length (filter (\<lambda>p. providerEntry exampleParams p \<noteq> None) (fst (getActiveProviders ?svc world0)))"
    "\<forall>p \<in> set (fst (getActiveProviders ?svc world0)). \<forall>q. providerEntry exampleParams p = Some q \<longrightarrow> q \<in> set quotes"
    by blast
  from q(2) have "length quotes = 2"
    using e1 e2 e3 by (simp add: a)
  moreover from q(3) have "SwapQuote.extend (exampleQuote 1000 5) \<lparr>provider = okx\<rparr> \<in> set quotes"
    using e1 by (simp add: a)
  ultimately show ?thesis
    using q(1) a by auto
qed

section \<open>Properties of the execution orchestrator\<close>

lemma trace_emit: "trace (emit e w) = trace w @ [e]"
  by (simp add: emit_def)

lemma polls_emit: "polls (emit e w) = polls w"
  by (simp add: emit_def)

lemma sendAndConfirm_trace:
  "\<exists>rest. trace (snd (sendAndConfirm svc p unsignedTx w)) = trace w @ rest \<and> \<not> list_ex isApprove rest"
proof (cases "buildAndSendTransaction (etherService svc) unsignedTx")
  case (Rejects m)
  then show ?thesis
    by (simp add: sendAndConfirm_def Let_def trace_emit isApprove_def)
next
  case (Resolves signedTx)
  show ?thesis
  proof (cases signedTx)
    case None
    with Resolves show ?thesis
      by (simp add: sendAndConfirm_def Let_def trace_emit isApprove_def)
  next
    case (Some txHash)
    with Resolves show ?thesis
      by (cases "waitForTransaction (etherService svc) txHash")
         (auto simp: sendAndConfirm_def Let_def trace_emit isApprove_def split: option.splits)
  qed
qed

lemma private_swapTokens_params:
  "fst (snd (private_swapTokens svc p params w)) =
     params\<lparr>recipient := Some (walletAddress (etherService svc))\<rparr>"
  by (simp add: private_swapTokens_def Let_def
      split: outcome.splits UnsignedSwapTransaction.splits sum.splits prod.splits)

lemma private_swapTokens_SolTx:
  assumes "getUnsignedTransaction p (params\<lparr>recipient := Some (walletAddress (etherService svc))\<rparr>)
             = Resolves (SolTx instructions)"
  shows "fst (private_swapTokens svc p params w) = Inl NotSupportedSigner"
    and "trace (snd (snd (private_swapTokens svc p params w)))
             = trace w @ [GetWallet, GetUnsignedTransaction (getName p)]"
  using assms
  by (simp_all add: private_swapTokens_def Let_def trace_emit)

lemma buildEnvelope_tee_SolTx:
  "buildEnvelope_tee toBigInt_tee (SolTx instructions)
     = Inr \<lparr>envTo_tee = None, envData_tee = None, envValue_tee = 0, envGasLimit_tee = None\<rparr>"
  by (simp add: buildEnvelope_tee_def txTo_def txData_def txValue_def txGasLimit_def)

lemma sendAndConfirm_tee_calls:
  "\<exists>rest. snd (sendAndConfirm_tee signer p unsignedTx) = BuildAndSendTransaction_tee unsignedTx # rest"
  by (simp add: sendAndConfirm_tee_def Let_def split: outcome.splits option.splits)

lemma sendAndConfirm_tee_error:
  "fst (sendAndConfirm_tee signer p unsignedTx) \<noteq> Inl NotSupportedSigner"
  by (simp add: sendAndConfirm_tee_def Let_def split: outcome.splits option.splits)

lemma private_swapTokens_tee_SolTx:
  assumes "getUnsignedTransaction p (params\<lparr>recipient := Some (walletAddress_tee signer)\<rparr>)
             = Resolves (SolTx instructions)"
  defines "args \<equiv> \<lparr>tokenAddress_tee = address (fromToken params), spenderAddress_tee = None,
                      approveAmount_tee = MAX_ALLOWANCE\<rparr>"
  shows "fst (private_swapTokens_tee signer toBigInt_tee p params) \<noteq> Inl NotSupportedSigner"
    and "\<exists>rest. snd (snd (private_swapTokens_tee signer toBigInt_tee p params))
            = [GetWallet_tee, GetUnsignedTransaction_tee (getName p), ApproveERC20IfNot_tee args] @ rest
          \<and> (approveERC20IfNot_tee signer args = Resolves () \<longrightarrow>
               (\<exists>rest'. rest = BuildAndSendTransaction_tee
                   \<lparr>envTo_tee = None, envData_tee = None, envValue_tee = 0,
                    envGasLimit_tee = None\<rparr> # rest'))"
proof -
  let ?env = "\<lparr>envTo_tee = None, envData_tee = None, envValue_tee = 0, envGasLimit_tee = None\<rparr>"
  show "fst (private_swapTokens_tee signer toBigInt_tee p params) \<noteq> Inl NotSupportedSigner"
    using assms(1) sendAndConfirm_tee_error [of signer p ?env]
    by (simp add: private_swapTokens_tee_def Let_def txTo_def buildEnvelope_tee_SolTx
        case_prod_beta split: outcome.splits)
  show "\<exists>rest. snd (snd (private_swapTokens_tee signer toBigInt_tee p params))
            = [GetWallet_tee, GetUnsignedTransaction_tee (getName p), ApproveERC20IfNot_tee args] @ rest
          \<and> (approveERC20IfNot_tee signer args = Resolves () \<longrightarrow>
               (\<exists>rest'. rest = BuildAndSendTransaction_tee ?env # rest'))"
  proof (cases "approveERC20IfNot_tee signer args")
    case (Rejects m)
    with assms(1) show ?thesis
      by (simp add: private_swapTokens_tee_def Let_def txTo_def args_def)
  next
    case (Resolves u)
    from sendAndConfirm_tee_calls [of signer p ?env] obtain rest' where
      "snd (sendAndConfirm_tee signer p ?env) = BuildAndSendTransaction_tee ?env # rest'"
      by blast
    with Resolves assms(1) show ?thesis
      by (simp add: private_swapTokens_tee_def Let_def txTo_def args_def buildEnvelope_tee_SolTx
          case_prod_beta)
  qed
qed

text \<open>
  C5, as the claim states it, fails: \<^verbatim>\<open>_swapTokens\<close> of tee-txn-signer, given a
  transaction of the Solana family, does not fail; it requests the approval with an
  undefined spender and submits an envelope with an undefined target.
\<close>

theorem private_swapTokens_tee_counterexample:
  "getUnsignedTransaction solanaProvider
       (exampleParams\<lparr>recipient := Some (walletAddress_tee exampleSigner_tee)\<rparr>)
     = Resolves (SolTx [''swap''])
   \<and> private_swapTokens_tee exampleSigner_tee exampleToBigInt solanaProvider exampleParams
       = (Inr \<lparr>transactionHash = ''0xhash'', status = ''success'', resultProvider = ''raydium''\<rparr>,
          exampleParams\<lparr>recipient := Some ''0xWallet''\<rparr>,
          [GetWallet_tee, GetUnsignedTransaction_tee ''raydium'',
           ApproveERC20IfNot_tee \<lparr>tokenAddress_tee = ''0xUSDC'', spenderAddress_tee = None,
                                   approveAmount_tee = MAX_ALLOWANCE\<rparr>,
           BuildAndSendTransaction_tee \<lparr>envTo_tee = None, envData_tee = None, envValue_tee = 0,
                                         envGasLimit_tee = None\<rparr>,
           WaitForTransaction_tee ''0xhash''])"
  by (simp add: private_swapTokens_tee_def sendAndConfirm_tee_def buildEnvelope_tee_SolTx Let_def
      txTo_def solanaProvider_def exampleProvider_def exampleSigner_tee_def exampleParams_def)

text \<open>
  C5, amended. In meta-swap-api, when the chosen provider answers with a transaction of
  the Solana family, \<open>private_swapTokens\<close> ends with \<open>NotSupportedSigner\<close>, and the
  only calls it has made are the read of the wallet address and the provider's
  transaction build: no approval and no submit. In tee-txn-signer there is no check of
  the family: on such a transaction the method does not end with \<open>NotSupportedSigner\<close>;
  it requests the approval with an undefined spender and, when the approval resolves,
  submits an envelope with undefined target and data.
\<close>

theorem private_swapTokens_unsupported_signer:
  "(getUnsignedTransaction p (params\<lparr>recipient := Some (walletAddress (etherService svc))\<rparr>)
       = Resolves (SolTx instructions) \<longrightarrow>
      fst (private_swapTokens svc p params w) = Inl NotSupportedSigner
      \<and> trace (snd (snd (private_swapTokens svc p params w)))
          = trace w @ [GetWallet, GetUnsignedTransaction (getName p)]
      \<and> \<not> list_ex isApprove [GetWallet, GetUnsignedTransaction (getName p)]
      \<and> \<not> list_ex isSubmit [GetWallet, GetUnsignedTransaction (getName p)])
   \<and> (getUnsignedTransaction p (params\<lparr>recipient := Some (walletAddress_tee signer)\<rparr>)
       = Resolves (SolTx instructions) \<longrightarrow>
      fst (private_swapTokens_tee signer toBigInt_tee p params) \<noteq> Inl NotSupportedSigner
      \<and> (\<exists>rest. snd (snd (private_swapTokens_tee signer toBigInt_tee p params))
            = [GetWallet_tee, GetUnsignedTransaction_tee (getName p),
               ApproveERC20IfNot_tee \<lparr>tokenAddress_tee = address (fromToken params),
                                       spenderAddress_tee = None,
                                       approveAmount_tee = MAX_ALLOWANCE\<rparr>] @ rest
          \<and> (approveERC20IfNot_tee signer
                 \<lparr>tokenAddress_tee = address (fromToken params), spenderAddress_tee = None,
                  approveAmount_tee = MAX_ALLOWANCE\<rparr> = Resolves () \<longrightarrow>
               (\<exists>rest'. rest = BuildAndSendTransaction_tee
                   \<lparr>envTo_tee = None, envData_tee = None, envValue_tee = 0,
                    envGasLimit_tee = None\<rparr> # rest'))))"
proof (intro conjI impI)
  assume a: "getUnsignedTransaction p (params\<lparr>recipient := Some (walletAddress (etherService svc))\<rparr>)
       = Resolves (SolTx instructions)"
  show "fst (private_swapTokens svc p params w) = Inl NotSupportedSigner"
    by (rule private_swapTokens_SolTx(1) [OF a])
  show "trace (snd (snd (private_swapTokens svc p params w)))
          = trace w @ [GetWallet, GetUnsignedTransaction (getName p)]"
    by (rule private_swapTokens_SolTx(2) [OF a])
  show "\<not> list_ex isApprove [GetWallet, GetUnsignedTransaction (getName p)]"
    by (simp add: isApprove_def)
  show "\<not> list_ex isSubmit [GetWallet, GetUnsignedTransaction (getName p)]"
    by (simp add: isSubmit_def)
next
  assume a: "getUnsignedTransaction p (params\<lparr>recipient := Some (walletAddress_tee signer)\<rparr>)
       = Resolves (SolTx instructions)"
  show "fst (private_swapTokens_tee signer toBigInt_tee p params) \<noteq> Inl NotSupportedSigner"
    by (rule private_swapTokens_tee_SolTx(1) [OF a])
  show "\<exists>rest. snd (snd (private_swapTokens_tee signer toBigInt_tee p params))
            = [GetWallet_tee, GetUnsignedTransaction_tee (getName p),
               ApproveERC20IfNot_tee \<lparr>tokenAddress_tee = address (fromToken params),
                                       spenderAddress_tee = None,
                                       approveAmount_tee = MAX_ALLOWANCE\<rparr>] @ rest
          \<and> (approveERC20IfNot_tee signer
                 \<lparr>tokenAddress_tee = address (fromToken params), spenderAddress_tee = None,
                  approveAmount_tee = MAX_ALLOWANCE\<rparr> = Resolves () \<longrightarrow>
               (\<exists>rest'. rest = BuildAndSendTransaction_tee
                   \<lparr>envTo_tee = None, envData_tee = None, envValue_tee = 0,
                    envGasLimit_tee = None\<rparr> # rest'))"
    by (rule private_swapTokens_tee_SolTx(2) [OF a])
qed

theorem private_swapTokens_unsupported_signer_witness:
  "getUnsignedTransaction solanaProvider
       (exampleParams\<lparr>recipient := Some (walletAddress (etherService (exampleService [solanaProvider])))\<rparr>)
     = Resolves (SolTx [''swap''])
   \<and> fst (private_swapTokens (exampleService [solanaProvider]) solanaProvider exampleParams world0)
       = Inl NotSupportedSigner
   \<and> trace (snd (snd (private_swapTokens (exampleService [solanaProvider]) solanaProvider exampleParams world0)))
       = [GetWallet, GetUnsignedTransaction ''raydium'']
   \<and> getUnsignedTransaction solanaProvider
       (exampleParams\<lparr>recipient := Some (walletAddress_tee exampleSigner_tee)\<rparr>)
     = Resolves (SolTx [''swap''])
   \<and> approveERC20IfNot_tee exampleSigner_tee
       \<lparr>tokenAddress_tee = address (fromToken exampleParams), spenderAddress_tee = None,
        approveAmount_tee = MAX_ALLOWANCE\<rparr> = Resolves ()
   \<and> fst (private_swapTokens_tee exampleSigner_tee exampleToBigInt solanaProvider exampleParams)
       \<noteq> Inl NotSupportedSigner
   \<and> (\<exists>rest'. snd (snd (private_swapTokens_tee exampleSigner_tee exampleToBigInt solanaProvider
                              exampleParams))
          = [GetWallet_tee, GetUnsignedTransaction_tee ''raydium'',
             ApproveERC20IfNot_tee \<lparr>tokenAddress_tee = address (fromToken exampleParams),
                                     spenderAddress_tee = None,
                                     approveAmount_tee = MAX_ALLOWANCE\<rparr>,
             BuildAndSendTransaction_tee \<lparr>envTo_tee = None, envData_tee = None,
                                           envValue_tee = 0, envGasLimit_tee = None\<rparr>] @ rest')"
proof -
  let ?svc = "exampleService [solanaProvider]"
  let ?args = "\<lparr>tokenAddress_tee = address (fromToken exampleParams), spenderAddress_tee = None,
                 approveAmount_tee = MAX_ALLOWANCE\<rparr>"
  have h: "getUnsignedTransaction solanaProvider
       (exampleParams\<lparr>recipient := Some (walletAddress (etherService ?svc))\<rparr>)
     = Resolves (SolTx [''swap''])"
    by (simp add: solanaProvider_def exampleProvider_def)
  have ht: "getUnsignedTransaction solanaProvider
       (exampleParams\<lparr>recipient := Some (walletAddress_tee exampleSigner_tee)\<rparr>)
     = Resolves (SolTx [''swap''])"
    by (simp add: solanaProvider_def exampleProvider_def)
  have n: "getName solanaProvider = ''raydium''"
    by (simp add: solanaProvider_def exampleProvider_def)
  have ap: "approveERC20IfNot_tee exampleSigner_tee ?args = Resolves ()"
    by (simp add: exampleSigner_tee_def)
  have t0: "trace world0 = []"
    by (simp add: world0_def)
  note t = private_swapTokens_unsupported_signer [where p = solanaProvider and params = exampleParams
      and svc = ?svc and instructions = "[''swap'']" and w = world0
      and signer = exampleSigner_tee and toBigInt_tee = exampleToBigInt]
  from t h have 1: "fst (private_swapTokens ?svc solanaProvider exampleParams world0)
       = Inl NotSupportedSigner"
    by blast
  from t h have "trace (snd (snd (private_swapTokens ?svc solanaProvider exampleParams world0)))
       = trace world0 @ [GetWallet, GetUnsignedTransaction (getName solanaProvider)]"
    by blast
  then have 2: "trace (snd (snd (private_swapTokens ?svc solanaProvider exampleParams world0)))
       = [GetWallet, GetUnsignedTransaction ''raydium'']"
    by (simp only: t0 n append_Nil)
  from t ht have 3: "fst (private_swapTokens_tee exampleSigner_tee exampleToBigInt solanaProvider
      exampleParams) \<noteq> Inl NotSupportedSigner"
    by blast
  from t ht obtain rest where r:
    "snd (snd (private_swapTokens_tee exampleSigner_tee exampleToBigInt solanaProvider exampleParams))
       = [GetWallet_tee, GetUnsignedTransaction_tee (getName solanaProvider),
          ApproveERC20IfNot_tee ?args] @ rest"
    "approveERC20IfNot_tee exampleSigner_tee ?args = Resolves () \<longrightarrow>
       (\<exists>rest'. rest = BuildAndSendTransaction_tee
           \<lparr>envTo_tee = None, envData_tee = None, envValue_tee = 0, envGasLimit_tee = None\<rparr> # rest')"
    by blast
  from r(2) ap obtain rest' where
    "rest = BuildAndSendTransaction_tee
           \<lparr>envTo_tee = None, envData_tee = None, envValue_tee = 0, envGasLimit_tee = None\<rparr> # rest'"
    by blast
  with r(1) have 4: "\<exists>rest'. snd (snd (private_swapTokens_tee exampleSigner_tee exampleToBigInt
        solanaProvider exampleParams))
          = [GetWallet_tee, GetUnsignedTransaction_tee ''raydium'',
             ApproveERC20IfNot_tee ?args,
             BuildAndSendTransaction_tee \<lparr>envTo_tee = None, envData_tee = None,
                                           envValue_tee = 0, envGasLimit_tee = None\<rparr>] @ rest'"
    by (simp add: n)
  from h 1 2 ht ap 3 4 show ?thesis
    by blast
qed

lemma MAX_ALLOWANCE_value: "int (digitsVal MAX_ALLOWANCE) = 2 ^ 256 - 1"
  by (simp add: MAX_ALLOWANCE_def digitsVal_def digitVal_def)

text \<open>
  C8. When the provider answers with a transaction of the EVM family, the execution
  reaches the approval, and the one approval it requests is for the source token, with
  the transaction's target as spender and the amount \<open>2 ^ 256 - 1\<close>, whatever the
  amount of the swap.
\<close>

theorem private_swapTokens_max_allowance:
  assumes "getUnsignedTransaction p (params\<lparr>recipient := Some (walletAddress (etherService svc))\<rparr>)
             = Resolves (EthTx tx)"
  shows "\<exists>args rest.
           trace (snd (snd (private_swapTokens svc p params w)))
             = trace w @ [GetWallet, GetUnsignedTransaction (getName p), ApproveERC20IfNot args] @ rest
           \<and> \<not> list_ex isApprove rest
           \<and> tokenAddress args = address (fromToken params)
           \<and> spenderAddress args = to tx
           \<and> approveAmount args = MAX_ALLOWANCE
           \<and> int (digitsVal (approveAmount args)) = 2 ^ 256 - 1"
proof -
  let ?params = "params\<lparr>recipient := Some (walletAddress (etherService svc))\<rparr>"
  let ?args = "\<lparr>tokenAddress = address (fromToken ?params), spenderAddress = to tx,
                 approveAmount = MAX_ALLOWANCE\<rparr>"
  let ?w2 = "emit (ApproveERC20IfNot ?args) (emit (GetUnsignedTransaction (getName p)) (emit GetWallet w))"
  have t2: "trace ?w2 = trace w @ [GetWallet, GetUnsignedTransaction (getName p), ApproveERC20IfNot ?args]"
    by (simp add: trace_emit)
  have "\<exists>rest. trace (snd (snd (private_swapTokens svc p params w))) = trace ?w2 @ rest
          \<and> \<not> list_ex isApprove rest"
  proof (cases "approveERC20IfNot (etherService svc) ?args")
    case (Rejects m)
    with assms show ?thesis
      by (simp add: private_swapTokens_def Let_def)
  next
    case (Resolves u)
    show ?thesis
    proof (cases "buildEnvelope svc tx")
      case (Inl e)
      with Resolves assms show ?thesis
        by (simp add: private_swapTokens_def Let_def)
    next
      case (Inr unsignedTx)
      from sendAndConfirm_trace [of svc p unsignedTx ?w2] obtain rest where
        "trace (snd (sendAndConfirm svc p unsignedTx ?w2)) = trace ?w2 @ rest" "\<not> list_ex isApprove rest"
        by blast
      with Inr Resolves assms show ?thesis
        by (simp add: private_swapTokens_def Let_def case_prod_beta)
    qed
  qed
  then obtain rest where
    "trace (snd (snd (private_swapTokens svc p params w))) = trace ?w2 @ rest" "\<not> list_ex isApprove rest"
    by blast
  with t2 MAX_ALLOWANCE_value show ?thesis
    by (intro exI [of _ ?args] exI [of _ rest]) simp
qed

theorem private_swapTokens_max_allowance_witness:
  "getUnsignedTransaction okx
       (exampleParams\<lparr>recipient := Some (walletAddress (etherService (exampleService [okx])))\<rparr>)
     = Resolves (EthTx exampleTx)
   \<and> (\<exists>args rest.
        trace (snd (snd (private_swapTokens (exampleService [okx]) okx exampleParams world0)))
          = trace world0 @ [GetWallet, GetUnsignedTransaction (getName okx), ApproveERC20IfNot args] @ rest
        \<and> spenderAddress args = ''0xRouter''
        \<and> int (digitsVal (approveAmount args))
            = 115792089237316195423570985008687907853269984665640564039457584007913129639935)"
proof -
  have h: "getUnsignedTransaction okx
       (exampleParams\<lparr>recipient := Some (walletAddress (etherService (exampleService [okx])))\<rparr>)
     = Resolves (EthTx exampleTx)"
    by (simp add: okx_def exampleProvider_def)
  from private_swapTokens_max_allowance [OF h, of world0] obtain args rest where
    "trace (snd (snd (private_swapTokens (exampleService [okx]) okx exampleParams world0)))
          = trace world0 @ [GetWallet, GetUnsignedTransaction (getName okx), ApproveERC20IfNot args] @ rest"
    "spenderAddress args = to exampleTx"
    "int (digitsVal (approveAmount args)) = 2 ^ 256 - 1"
    by blast
  then show ?thesis
    using h by (auto simp: exampleTx_def)
qed

section \<open>The parameter object of a request\<close>

lemma Zeros_literal:
  "Zeros = ''00000000000000000000000000000000000000000000000000000000000000000000000000000000000000000000000000000000000000000000000000000000''"
  unfolding Zeros_def by code_simp

lemma parseUnits_example: "parseUnits ''1.5'' 6 = Inr 1500000"
  by (simp add: parseUnits_def matchDecimal_def isDigit_def BigInt_def digitsVal_def digitVal_def
      padDecimal.simps Zeros_literal)

lemma createSwapParams_example:
  "createSwapParams (exampleService ps) (exampleRequest ''1.5'') world0 = (Inr exampleParams, world1)"
  by (simp add: createSwapParams_def exampleService_def exampleRequest_def world0_def world1_def
      exampleParams_def emit_def parseUnits_example)

lemma createSwapParams_polls: "polls (snd (createSwapParams svc request w)) = polls w"
  by (simp add: createSwapParams_def Let_def polls_emit split: outcome.splits sum.splits)

lemma swapTokens_params:
  assumes "createSwapParams svc request w = (Inr params, w1)"
    and "fst (getQuotesFromProviders svc params w1) = Inr quotes"
  shows "quotes = [] \<Longrightarrow> fst (snd (swapTokens svc request w)) = Some params"
    and "quotes \<noteq> [] \<Longrightarrow> fst (snd (swapTokens svc request w))
             = Some (params\<lparr>recipient := Some (walletAddress (etherService svc))\<rparr>)"
proof -
  note q = assms(2)
  show "fst (snd (swapTokens svc request w)) = Some params" if "quotes = []"
    using assms(1) q that by (simp add: swapTokens_def case_prod_beta)
  show "fst (snd (swapTokens svc request w))
          = Some (params\<lparr>recipient := Some (walletAddress (etherService svc))\<rparr>)"
    if "quotes \<noteq> []"
  proof -
    from that obtain b where "getBestQuote quotes = Some b"
      by (cases quotes) simp_all
    with assms(1) q show ?thesis
      by (simp add: swapTokens_def case_prod_beta private_swapTokens_params)
  qed
qed

lemma getQuote_params:
  assumes "createSwapParams svc request w = (Inr params, w1)"
  shows "fst (snd (getQuote svc request w)) = Some params"
  using assms
  by (simp add: getQuote_def getQuotesFromProviders_eq case_prod_beta
      split: option.splits sum.splits)

text \<open>
  C9, as the claim states it, fails: the execution writes the recipient into the
  parameter object it was given.
\<close>

theorem swapParams_recipient_counterexample:
  "recipient exampleParams = None
   \<and> recipient (fst (snd (private_swapTokens (exampleService [okx]) okx exampleParams world0)))
       = Some ''0xWallet''"
  by (simp add: private_swapTokens_params exampleParams_def exampleService_def exampleSigner_def)

text \<open>
  C9, amended. After construction the fields \<open>fromToken\<close>, \<open>toToken\<close>, \<open>amount\<close> and
  \<open>slippageTolerance\<close> of the parameter object are unchanged by aggregation, selection
  and execution. \<open>recipient\<close> is overwritten by the execution with the address of the
  signer's wallet: the object a request leaves behind is the constructed one with that
  recipient when the round yields a quote and \<open>swapTokens\<close> executes, and is the
  constructed one, unchanged, when the round yields no quote or the request is a
  \<open>getQuote\<close>.
\<close>

theorem swapParams_frame:
  "fst (snd (private_swapTokens svc p params w))
     = params\<lparr>recipient := Some (walletAddress (etherService svc))\<rparr>
   \<and> fromToken (fst (snd (private_swapTokens svc p params w))) = fromToken params
   \<and> toToken (fst (snd (private_swapTokens svc p params w))) = toToken params
   \<and> amount (fst (snd (private_swapTokens svc p params w))) = amount params
   \<and> slippageTolerance (fst (snd (private_swapTokens svc p params w))) = slippageTolerance params
   \<and> (createSwapParams svc request w = (Inr params, w1) \<longrightarrow>
        (\<forall>quotes. fst (getQuotesFromProviders svc params w1) = Inr quotes \<longrightarrow>
           (quotes = [] \<longrightarrow> fst (snd (swapTokens svc request w)) = Some params)
           \<and> (quotes \<noteq> [] \<longrightarrow>
                fst (snd (swapTokens svc request w))
                  = Some (params\<lparr>recipient := Some (walletAddress (etherService svc))\<rparr>)))
        \<and> fst (snd (getQuote svc request w)) = Some params)"
proof (intro conjI impI allI)
  show "fst (snd (private_swapTokens svc p params w))
     = params\<lparr>recipient := Some (walletAddress (etherService svc))\<rparr>"
    by (rule private_swapTokens_params)
  show "fromToken (fst (snd (private_swapTokens svc p params w))) = fromToken params"
    "toToken (fst (snd (private_swapTokens svc p params w))) = toToken params"
    "amount (fst (snd (private_swapTokens svc p params w))) = amount params"
    "slippageTolerance (fst (snd (private_swapTokens svc p params w))) = slippageTolerance params"
    by (simp_all add: private_swapTokens_params)
next
  fix quotes
  assume c: "createSwapParams svc request w = (Inr params, w1)"
    and q: "fst (getQuotesFromProviders svc params w1) = Inr quotes"
  show "fst (snd (swapTokens svc request w)) = Some params" if "quotes = []"
    using that by (rule swapTokens_params(1) [OF c q])
  show "fst (snd (swapTokens svc request w))
          = Some (params\<lparr>recipient := Some (walletAddress (etherService svc))\<rparr>)"
    if "quotes \<noteq> []"
    using that by (rule swapTokens_params(2) [OF c q])
next
  assume c: "createSwapParams svc request w = (Inr params, w1)"
  from getQuote_params [OF c]
  show "fst (snd (getQuote svc request w)) = Some params" .
qed

text \<open>
  A request that executes, a request whose round yields no quote, and a quote request.
\<close>

theorem swapParams_frame_witness:
  "createSwapParams (exampleService [okx, kyber]) (exampleRequest ''1.5'') world0
     = (Inr exampleParams, world1)
   \<and> fst (getQuotesFromProviders (exampleService [okx, kyber]) exampleParams world1) = Inr exampleQuotes
   \<and> exampleQuotes \<noteq> []
   \<and> fst (snd (swapTokens (exampleService [okx, kyber]) (exampleRequest ''1.5'') world0))
       = Some (exampleParams\<lparr>recipient := Some ''0xWallet''\<rparr>)
   \<and> fst (snd (getQuote (exampleService [okx, kyber]) (exampleRequest ''1.5'') world0))
       = Some exampleParams
   \<and> createSwapParams (exampleService [noPair]) (exampleRequest ''1.5'') world0
       = (Inr exampleParams, world1)
   \<and> fst (getQuotesFromProviders (exampleService [noPair]) exampleParams world1) = Inr []
   \<and> fst (snd (swapTokens (exampleService [noPair]) (exampleRequest ''1.5'') world0))
       = Some exampleParams"
proof -
  let ?svc = "exampleService [okx, kyber]"
  let ?nsvc = "exampleService [noPair]"
  have c: "createSwapParams ?svc (exampleRequest ''1.5'') world0 = (Inr exampleParams, world1)"
    by (rule createSwapParams_example)
  have a: "fst (getActiveProviders ?svc world1) = [okx, kyber]"
    by (simp add: getActiveProviders_fst exampleService_def world1_def isActive_def
        okx_def kyber_def exampleProvider_def)
  have l: "quoteLatency okx = 0" "quoteLatency kyber = 0"
    by (simp_all add: okx_def kyber_def exampleProvider_def)
  have e: "providerEntry exampleParams okx = Some (SwapQuote.extend (exampleQuote 1000 5) \<lparr>provider = okx\<rparr>)"
    "providerEntry exampleParams kyber = Some (SwapQuote.extend (exampleQuote 1000 3) \<lparr>provider = kyber\<rparr>)"
    by (simp_all add: providerEntry_def okx_def kyber_def exampleProvider_def)
  have q: "fst (getQuotesFromProviders ?svc exampleParams world1) = Inr exampleQuotes"
    by (simp add: getQuotesFromProviders_eq a l e List.map_filter_simps exampleQuotes_def)
  have ne: "exampleQuotes \<noteq> []"
    by (simp add: exampleQuotes_def)
  have wa: "walletAddress (etherService (exampleService ps)) = ''0xWallet''" for ps
    by (simp add: exampleService_def exampleSigner_def)
  note t = swapParams_frame [where svc = ?svc and p = okx and params = exampleParams
      and w = world0 and request = "exampleRequest ''1.5''" and ?w1.0 = world1]
  from t c q ne have 1: "fst (snd (swapTokens ?svc (exampleRequest ''1.5'') world0))
      = Some (exampleParams\<lparr>recipient := Some (walletAddress (etherService ?svc))\<rparr>)"
    by blast
  from t c have 2: "fst (snd (getQuote ?svc (exampleRequest ''1.5'') world0)) = Some exampleParams"
    by blast
  have nc: "createSwapParams ?nsvc (exampleRequest ''1.5'') world0 = (Inr exampleParams, world1)"
    by (rule createSwapParams_example)
  have na: "fst (getActiveProviders ?nsvc world1) = [noPair]"
    by (simp add: getActiveProviders_fst exampleService_def world1_def isActive_def
        noPair_def exampleProvider_def)
  have ne': "providerEntry exampleParams noPair = None"
    by (simp add: providerEntry_def noPair_def exampleProvider_def)
  have nq: "fst (getQuotesFromProviders ?nsvc exampleParams world1) = Inr []"
    by (simp add: getQuotesFromProviders_eq na ne' List.map_filter_simps)
  note nt = swapParams_frame [where svc = ?nsvc and p = noPair and params = exampleParams
      and w = world0 and request = "exampleRequest ''1.5''" and ?w1.0 = world1]
  from nt nc nq have 3: "fst (snd (swapTokens ?nsvc (exampleRequest ''1.5'') world0)) = Some exampleParams"
    by blast
  from c q ne 1 2 nc nq 3 show ?thesis
    by (simp only: wa simp_thms)
qed

section \<open>Execution with a named provider\<close>

lemma getActiveProviders_trace: "trace (snd (getActiveProviders svc w)) = trace w"
  by (simp add: getActiveProviders_snd)

text \<open>
  C7. When no active provider bears the requested name, \<open>swapTokensByProvider\<close> ends with
  \<open>UnsupportedProvider\<close> whatever the other providers are, and has made no lookup, no
  provider build and no signer call. When an active provider bears the name, the first
  such provider in the active list is the one the request is normalized for and executed
  with, without any aggregation or selection.
\<close>

theorem swapTokensByProvider_named:
  "((\<forall>p \<in> set (fst (getActiveProviders svc w)). getName p \<noteq> name) \<longrightarrow>
      fst (swapTokensByProvider svc name request w) = Inl (UnsupportedProvider name)
      \<and> trace (snd (swapTokensByProvider svc name request w)) = trace w)
   \<and> (find (\<lambda>p. getName p = name) (fst (getActiveProviders svc w)) = Some target \<longrightarrow>
      swapTokensByProvider svc name request w =
        (case createSwapParams svc request (snd (getActiveProviders svc w)) of
           (Inl e, w2) \<Rightarrow> (Inl e, w2)
         | (Inr params, w2) \<Rightarrow>
             (fst (private_swapTokens svc target params w2),
              snd (snd (private_swapTokens svc target params w2)))))"
proof (intro conjI impI)
  assume "\<forall>p \<in> set (fst (getActiveProviders svc w)). getName p \<noteq> name"
  then have n: "find (\<lambda>p. getName p = name) (fst (getActiveProviders svc w)) = None"
    by (simp add: find_None_iff)
  from n show "fst (swapTokensByProvider svc name request w) = Inl (UnsupportedProvider name)"
    by (simp add: swapTokensByProvider_def case_prod_beta)
  from n show "trace (snd (swapTokensByProvider svc name request w)) = trace w"
    by (simp add: swapTokensByProvider_def case_prod_beta getActiveProviders_trace)
next
  assume "find (\<lambda>p. getName p = name) (fst (getActiveProviders svc w)) = Some target"
  then show "swapTokensByProvider svc name request w =
        (case createSwapParams svc request (snd (getActiveProviders svc w)) of
           (Inl e, w2) \<Rightarrow> (Inl e, w2)
         | (Inr params, w2) \<Rightarrow>
             (fst (private_swapTokens svc target params w2),
              snd (snd (private_swapTokens svc target params w2))))"
    by (simp add: swapTokensByProvider_def case_prod_beta split: sum.splits)
qed

lemma getName_examples: "getName okx = ''okx''" "getName kyber = ''kyber''"
  by (simp_all add: okx_def kyber_def exampleProvider_def)

theorem swapTokensByProvider_named_witness:
  "list_all (\<lambda>p. getName p \<noteq> ''unknown'') (fst (getActiveProviders (exampleService [okx, kyber]) world0))
   \<and> fst (swapTokensByProvider (exampleService [okx, kyber]) ''unknown'' (exampleRequest ''1.5'') world0)
       = Inl (UnsupportedProvider ''unknown'')
   \<and> trace (snd (swapTokensByProvider (exampleService [okx, kyber]) ''unknown'' (exampleRequest ''1.5'') world0))
       = []
   \<and> find (\<lambda>p. getName p = ''kyber'') (fst (getActiveProviders (exampleService [okx, kyber]) world0))
       = Some kyber
   \<and> swapTokensByProvider (exampleService [okx, kyber]) ''kyber'' (exampleRequest ''1.5'') world0 =
        (case createSwapParams (exampleService [okx, kyber]) (exampleRequest ''1.5'')
                (snd (getActiveProviders (exampleService [okx, kyber]) world0)) of
           (Inl e, w2) \<Rightarrow> (Inl e, w2)
         | (Inr params, w2) \<Rightarrow>
             (fst (private_swapTokens (exampleService [okx, kyber]) kyber params w2),
              snd (snd (private_swapTokens (exampleService [okx, kyber]) kyber params w2))))"
proof -
  let ?svc = "exampleService [okx, kyber]"
  have a: "fst (getActiveProviders ?svc world0) = [okx, kyber]"
    by (simp add: getActiveProviders_fst exampleService_def world0_def isActive_def
        okx_def kyber_def exampleProvider_def)
  have u: "\<forall>p \<in> set (fst (getActiveProviders ?svc world0)). getName p \<noteq> ''unknown''"
    by (simp add: a getName_examples)
  have k: "find (\<lambda>p. getName p = ''kyber'') (fst (getActiveProviders ?svc world0)) = Some kyber"
    by (simp add: a getName_examples)
  have t: "trace world0 = []"
    by (simp add: world0_def)
  from swapTokensByProvider_named [of ?svc world0 "''unknown''" "exampleRequest ''1.5''" kyber] u
  have 1: "fst (swapTokensByProvider ?svc ''unknown'' (exampleRequest ''1.5'') world0)
       = Inl (UnsupportedProvider ''unknown'')
     \<and> trace (snd (swapTokensByProvider ?svc ''unknown'' (exampleRequest ''1.5'') world0)) = []"
    by (simp only: t simp_thms)
  from swapTokensByProvider_named [of ?svc world0 "''kyber''" "exampleRequest ''1.5''" kyber] k
  have 2: "swapTokensByProvider ?svc ''kyber'' (exampleRequest ''1.5'') world0 =
        (case createSwapParams ?svc (exampleRequest ''1.5'') (snd (getActiveProviders ?svc world0)) of
           (Inl e, w2) \<Rightarrow> (Inl e, w2)
         | (Inr params, w2) \<Rightarrow>
             (fst (private_swapTokens ?svc kyber params w2),
              snd (snd (private_swapTokens ?svc kyber params w2))))"
    by blast
  from u have u': "list_all (\<lambda>p. getName p \<noteq> ''unknown'') (fst (getActiveProviders ?svc world0))"
    by (simp only: list_all_iff)
  from u' 1 k 2 show ?thesis by blast
qed

text \<open>The request of the witness, run to its end: the named provider executes the swap.\<close>

lemma swapTokensByProvider_example:
  "fst (swapTokensByProvider (exampleService [okx, kyber]) ''kyber'' (exampleRequest ''1.5'') world0)
     = Inr \<lparr>transactionHash = ''0xhash'', status = ''success'', resultProvider = ''kyber''\<rparr>"
proof -
  have a: "fst (getActiveProviders (exampleService [okx, kyber]) world0) = [okx, kyber]"
    by (simp add: getActiveProviders_fst exampleService_def world0_def isActive_def
        okx_def kyber_def exampleProvider_def)
  have c: "createSwapParams (exampleService [okx, kyber]) (exampleRequest ''1.5'')
             (snd (getActiveProviders (exampleService [okx, kyber]) world0))
           = (Inr exampleParams, world1\<lparr>polls := Suc 0\<rparr>)"
    by (simp add: getActiveProviders_snd createSwapParams_def exampleService_def exampleRequest_def
        world0_def world1_def exampleParams_def emit_def parseUnits_example)
  have x: "fst (private_swapTokens (exampleService [okx, kyber]) kyber exampleParams (world1\<lparr>polls := Suc 0\<rparr>))
     = Inr \<lparr>transactionHash = ''0xhash'', status = ''success'', resultProvider = ''kyber''\<rparr>"
    by (simp add: private_swapTokens_def sendAndConfirm_def buildEnvelope_def Let_def
        exampleService_def exampleSigner_def kyber_def exampleProvider_def exampleTx_def)
  show ?thesis
    by (simp add: swapTokensByProvider_def case_prod_beta a c x getName_examples)
qed

section \<open>A round without a quote\<close>









section \<open>Properties of the token search\<close>

lemma find_snoc:
  "find P (xs @ [x]) = (case find P xs of Some y \<Rightarrow> Some y | None \<Rightarrow> if P x then Some x else None)"
  by (induction xs) simp_all

lemma find_filter_conj:
  "find P (filter Q xs) = find (\<lambda>x. Q x \<and> P x) xs"
  by (induction xs) simp_all

text \<open>What one step of the loop does to the map, by the shape of the pair.\<close>

lemma addPair_skip:
  "\<not> contributes pair \<or> map_of tokenMap (the (pairAddress pair)) \<noteq> None \<Longrightarrow>
     addPair tokenMap pair = tokenMap"
  by (auto simp: addPair_def contributes_def pairAddress_def split: option.splits)

lemma addPair_add:
  "contributes pair \<Longrightarrow> map_of tokenMap (the (pairAddress pair)) = None \<Longrightarrow>
     addPair tokenMap pair = tokenMap @ [(the (pairAddress pair), tokenOf pair)]"
  by (auto simp: addPair_def contributes_def pairAddress_def tokenOf_def split: option.splits)

lemma tokenMapInv_step:
  assumes "tokenMapInv ps m"
  shows "tokenMapInv (ps @ [pair]) (addPair m pair)"
proof -
  from assms have d: "distinct (map fst m)"
    and e: "\<And>a t. (a, t) \<in> set m \<Longrightarrow> \<exists>q.
          find (\<lambda>p. contributes p \<and> pairAddress p = Some a) ps = Some q \<and> t = tokenOf q"
    and k: "\<And>p. p \<in> set ps \<Longrightarrow> contributes p \<Longrightarrow> the (pairAddress p) \<in> fst ` set m"
    by (auto simp: tokenMapInv_def)
  have old: "\<exists>q. find (\<lambda>p. contributes p \<and> pairAddress p = Some a) (ps @ [pair]) = Some q
                 \<and> t = tokenOf q" if "(a, t) \<in> set m" for a t
    using e [OF that] by (auto simp: find_snoc)
  show ?thesis
  proof (cases "contributes pair \<and> map_of m (the (pairAddress pair)) = None")
    case False
    then have "\<not> contributes pair \<or> map_of m (the (pairAddress pair)) \<noteq> None"
      by simp
    then have same: "addPair m pair = m"
      by (rule addPair_skip)
    have "the (pairAddress pair) \<in> fst ` set m" if "contributes pair"
      using False that by (auto simp: map_of_eq_None_iff)
    with d old k show ?thesis
      unfolding tokenMapInv_def same by auto
  next
    case True
    then have c: "contributes pair" and fresh: "the (pairAddress pair) \<notin> fst ` set m"
      by (auto simp: map_of_eq_None_iff)
    from True have add: "addPair m pair = m @ [(the (pairAddress pair), tokenOf pair)]"
      by (intro addPair_add) simp_all
    from c have pa: "pairAddress pair = Some (the (pairAddress pair))"
      by (auto simp: contributes_def)
    have none: "find (\<lambda>p. contributes p \<and> pairAddress p = Some (the (pairAddress pair))) ps = None"
    proof (rule ccontr)
      assume "find (\<lambda>p. contributes p \<and> pairAddress p = Some (the (pairAddress pair))) ps \<noteq> None"
      then obtain q where "q \<in> set ps" "contributes q" "pairAddress q = Some (the (pairAddress pair))"
        by (auto simp: find_None_iff)
      with k [of q] fresh show False by simp
    qed
    have new: "find (\<lambda>p. contributes p \<and> pairAddress p = Some (the (pairAddress pair))) (ps @ [pair])
                 = Some pair"
      using none c pa by (simp add: find_snoc)
    have 1: "distinct (map fst (m @ [(the (pairAddress pair), tokenOf pair)]))"
      using d fresh by simp
    have 2: "\<forall>(a, t) \<in> set (m @ [(the (pairAddress pair), tokenOf pair)]). \<exists>q.
          find (\<lambda>p. contributes p \<and> pairAddress p = Some a) (ps @ [pair]) = Some q \<and> t = tokenOf q"
      using old new by auto
    have 3: "\<forall>p \<in> set (ps @ [pair]). contributes p \<longrightarrow>
          the (pairAddress p) \<in> fst ` set (m @ [(the (pairAddress pair), tokenOf pair)])"
      using k by auto
    from 1 2 3 show ?thesis
      unfolding tokenMapInv_def add by blast
  qed
qed

lemma tokenMapInv_foldl: "tokenMapInv ps (foldl addPair [] ps)"
proof (induction ps rule: rev_induct)
  case Nil
  show ?case by (simp add: tokenMapInv_def)
next
  case (snoc pair ps)
  then show ?case by (simp add: tokenMapInv_step)
qed

lemma tokenOf_fields:
  "decimals_info (tokenOf pair) = 18" "address_info (tokenOf pair) = the (pairAddress pair)"
  by (simp_all add: tokenOf_def)

lemma tokenMap_tokens:
  assumes "tokenMapInv ps m"
  shows "(\<forall>t \<in> set (map snd m). decimals_info t = 18)
         \<and> distinct (map address_info (map snd m))
         \<and> (\<forall>t \<in> set (map snd m). \<exists>pair.
              find (\<lambda>p. contributes p \<and> pairAddress p = Some (address_info t)) ps = Some pair
              \<and> t = tokenOf pair)"
proof -
  from assms have d: "distinct (map fst m)"
    and e: "\<And>a t. (a, t) \<in> set m \<Longrightarrow> \<exists>q.
          find (\<lambda>p. contributes p \<and> pairAddress p = Some a) ps = Some q \<and> t = tokenOf q"
    by (auto simp: tokenMapInv_def)
  have key: "address_info t = a" if "(a, t) \<in> set m" for a t
  proof -
    from e [OF that] obtain q where
      q: "find (\<lambda>p. contributes p \<and> pairAddress p = Some a) ps = Some q" "t = tokenOf q"
      by blast
    from q(1) have "pairAddress q = Some a"
      by (auto simp: find_Some_iff)
    with q(2) show ?thesis
      by (simp add: tokenOf_fields)
  qed
  have "address_info (snd x) = fst x" if "x \<in> set m" for x
    using key [of "fst x" "snd x"] that by simp
  then have eq: "map address_info (map snd m) = map fst m"
    by simp
  have 2: "distinct (map address_info (map snd m))"
    unfolding eq by (rule d)
  have 3: "\<exists>pair. find (\<lambda>p. contributes p \<and> pairAddress p = Some (address_info t)) ps = Some pair
              \<and> t = tokenOf pair" if "t \<in> set (map snd m)" for t
  proof -
    from that obtain a where a: "(a, t) \<in> set m" by auto
    from e [OF a] key [OF a] show ?thesis by simp
  qed
  have 1: "decimals_info t = 18" if "t \<in> set (map snd m)" for t
    using 3 [OF that] by (auto simp: tokenOf_fields)
  from 1 2 3 show ?thesis by blast
qed

lemma tokenMap_complete:
  assumes "tokenMapInv ps m"
  shows "\<forall>p \<in> set ps. contributes p \<longrightarrow> the (pairAddress p) \<in> address_info ` set (map snd m)"
proof (intro ballI impI)
  fix p assume "p \<in> set ps" "contributes p"
  with assms have "the (pairAddress p) \<in> fst ` set m"
    by (auto simp: tokenMapInv_def)
  then obtain t where a: "(the (pairAddress p), t) \<in> set m"
    by auto
  from assms a obtain q where
    q: "find (\<lambda>x. contributes x \<and> pairAddress x = Some (the (pairAddress p))) ps = Some q"
      "t = tokenOf q"
    by (auto simp: tokenMapInv_def)
  from q(1) have "pairAddress q = Some (the (pairAddress p))"
    by (auto simp: find_Some_iff)
  with q(2) have "address_info t = the (pairAddress p)"
    by (simp add: tokenOf_fields)
  with a show "the (pairAddress p) \<in> address_info ` set (map snd m)"
    by force
qed

text \<open>The loop builds the entries of the kept pairs, in their order.\<close>

lemma foldl_addPair_firstQualifying:
  "map snd (foldl addPair m (filter highLiquidity ps))
     = map snd m @ map tokenOf (firstQualifying (map fst m) ps)"
proof (induction ps arbitrary: m)
  case Nil
  show ?case by simp
next
  case (Cons p ps)
  show ?case
  proof (cases "highLiquidity p \<and> contributes p \<and> map_of m (the (pairAddress p)) = None")
    case True
    then have add: "addPair m p = m @ [(the (pairAddress p), tokenOf p)]"
      by (intro addPair_add) simp_all
    from True have q: "qualifies p" "the (pairAddress p) \<notin> set (map fst m)"
      by (auto simp: qualifies_def map_of_eq_None_iff)
    have "map snd (foldl addPair m (filter highLiquidity (p # ps)))
        = map snd (foldl addPair (m @ [(the (pairAddress p), tokenOf p)]) (filter highLiquidity ps))"
      using True by (simp add: add)
    also have "\<dots> = map snd (m @ [(the (pairAddress p), tokenOf p)])
        @ map tokenOf (firstQualifying (map fst (m @ [(the (pairAddress p), tokenOf p)])) ps)"
      by (rule Cons.IH)
    also have "\<dots> = map snd m @ map tokenOf (firstQualifying (map fst m) (p # ps))"
      using q by simp
    finally show ?thesis .
  next
    case False
    have skip: "firstQualifying (map fst m) (p # ps) = firstQualifying (map fst m) ps"
      using False by (auto simp: qualifies_def map_of_eq_None_iff)
    show ?thesis
    proof (cases "highLiquidity p")
      case hl: True
      with False have "\<not> contributes p \<or> map_of m (the (pairAddress p)) \<noteq> None"
        by simp
      then have "addPair m p = m"
        by (rule addPair_skip)
      with hl have "map snd (foldl addPair m (filter highLiquidity (p # ps)))
          = map snd (foldl addPair m (filter highLiquidity ps))"
        by simp
      also have "\<dots> = map snd m @ map tokenOf (firstQualifying (map fst m) ps)"
        by (rule Cons.IH)
      finally show ?thesis
        by (simp only: skip)
    next
      case nhl: False
      then have "map snd (foldl addPair m (filter highLiquidity (p # ps)))
          = map snd (foldl addPair m (filter highLiquidity ps))"
        by simp
      also have "\<dots> = map snd m @ map tokenOf (firstQualifying (map fst m) ps)"
        by (rule Cons.IH)
      finally show ?thesis
        by (simp only: skip)
    qed
  qed
qed

lemma getTokenInfos_Inr:
  assumes "getTokenInfos fetch searchString = Inr tokens"
  shows "tokens = map snd (foldl addPair [] (filter highLiquidity (responsePairs fetch searchString)))"
  using assms
  by (auto simp: getTokenInfos_def responsePairs_def Let_def
      split: outcome.splits if_splits option.splits)

text \<open>
  C10. Whenever the search answers (the request succeeds with an ok status and a body),
  every returned token has \<open>decimals = 18\<close>, no two returned tokens have the same
  address, each returned token is the one built from the first qualifying pair of the
  answer that has its address, whatever the chains of later pairs with that address,
  every qualifying pair has its address among the returned tokens, and the returned
  list is that of the first qualifying pair of each address, in the order of the answer.
\<close>

theorem getTokenInfos_tokens:
  "(\<forall>response body. fetch searchString = Resolves response \<and> ok response
        \<and> json response = Resolves body \<longrightarrow>
      (\<exists>tokens. getTokenInfos fetch searchString = Inr tokens))
   \<and> (\<forall>tokens. getTokenInfos fetch searchString = Inr tokens \<longrightarrow>
        (\<forall>t \<in> set tokens. decimals_info t = 18)
        \<and> distinct (map address_info tokens)
        \<and> (\<forall>t \<in> set tokens. \<exists>pair.
             find (\<lambda>p. qualifies p \<and> pairAddress p = Some (address_info t))
               (responsePairs fetch searchString) = Some pair
             \<and> t = tokenOf pair)
        \<and> (\<forall>pair \<in> set (responsePairs fetch searchString). qualifies pair \<longrightarrow>
             the (pairAddress pair) \<in> address_info ` set tokens)
        \<and> tokens = map tokenOf (firstQualifying [] (responsePairs fetch searchString)))"
proof (intro conjI allI impI)
  fix response body
  assume "fetch searchString = Resolves response \<and> ok response \<and> json response = Resolves body"
  then show "\<exists>tokens. getTokenInfos fetch searchString = Inr tokens"
    by (simp add: getTokenInfos_def Let_def)
next
  fix tokens
  assume g: "getTokenInfos fetch searchString = Inr tokens"
  let ?hl = "filter highLiquidity (responsePairs fetch searchString)"
  have t: "tokens = map snd (foldl addPair [] ?hl)"
    using g by (rule getTokenInfos_Inr)
  have f: "find (\<lambda>p. contributes p \<and> pairAddress p = Some a) ?hl
         = find (\<lambda>p. qualifies p \<and> pairAddress p = Some a) (responsePairs fetch searchString)" for a
    by (simp add: find_filter_conj qualifies_def conj_assoc)
  note inv = tokenMap_tokens [OF tokenMapInv_foldl [of ?hl]]
  from inv show "\<forall>t \<in> set tokens. decimals_info t = 18"
    unfolding t by blast
  from inv show "distinct (map address_info tokens)"
    unfolding t by blast
  from inv show "\<forall>t \<in> set tokens. \<exists>pair.
             find (\<lambda>p. qualifies p \<and> pairAddress p = Some (address_info t))
               (responsePairs fetch searchString) = Some pair
             \<and> t = tokenOf pair"
    unfolding t f by blast
  from tokenMap_complete [OF tokenMapInv_foldl [of ?hl]]
  show "\<forall>pair \<in> set (responsePairs fetch searchString). qualifies pair \<longrightarrow>
             the (pairAddress pair) \<in> address_info ` set tokens"
    unfolding t by (simp add: qualifies_def)
  from foldl_addPair_firstQualifying [of "[]" "responsePairs fetch searchString"]
  show "tokens = map tokenOf (firstQualifying [] (responsePairs fetch searchString))"
    unfolding t by simp
qed

text \<open>
  An answer with three pairs of one address, on an unmapped chain, on Ethereum and on
  Solana, one pair of low liquidity and one more qualifying pair: two tokens, that of
  the Ethereum pair and that of the last pair.
\<close>

theorem getTokenInfos_tokens_witness:
  "exampleFetch ''AAA'' = Resolves \<lparr>ok = True, statusText = ''OK'', json = Resolves (Some examplePairs)\<rparr>
   \<and> getTokenInfos exampleFetch ''AAA''
       = Inr [tokenOf (examplePair ''ethereum'' ''0xAAA'' ''AAA'' 60000),
              tokenOf (examplePair ''solana'' ''So222'' ''WSOL'' 80000)]
   \<and> decimals_info (tokenOf (examplePair ''ethereum'' ''0xAAA'' ''AAA'' 60000)) = 18
   \<and> distinct (map address_info [tokenOf (examplePair ''ethereum'' ''0xAAA'' ''AAA'' 60000),
                                  tokenOf (examplePair ''solana'' ''So222'' ''WSOL'' 80000)])
   \<and> find (\<lambda>p. qualifies p \<and> pairAddress p = Some ''0xAAA'') (responsePairs exampleFetch ''AAA'')
       = Some (examplePair ''ethereum'' ''0xAAA'' ''AAA'' 60000)
   \<and> qualifies (examplePair ''solana'' ''So222'' ''WSOL'' 80000)
   \<and> ''So222'' \<in> address_info ` set [tokenOf (examplePair ''ethereum'' ''0xAAA'' ''AAA'' 60000),
                                       tokenOf (examplePair ''solana'' ''So222'' ''WSOL'' 80000)]
   \<and> firstQualifying [] (responsePairs exampleFetch ''AAA'')
       = [examplePair ''ethereum'' ''0xAAA'' ''AAA'' 60000,
          examplePair ''solana'' ''So222'' ''WSOL'' 80000]"
proof -
  let ?p1 = "examplePair ''ethereum'' ''0xAAA'' ''AAA'' 60000"
  let ?p2 = "examplePair ''solana'' ''So222'' ''WSOL'' 80000"
  have r: "exampleFetch ''AAA'' = Resolves \<lparr>ok = True, statusText = ''OK'', json = Resolves (Some examplePairs)\<rparr>"
    by (simp add: exampleFetch_def)
  have rp: "responsePairs exampleFetch ''AAA'' = examplePairs"
    by (simp add: responsePairs_def exampleFetch_def)
  have g: "getTokenInfos exampleFetch ''AAA'' = Inr [tokenOf ?p1, tokenOf ?p2]"
    by (simp add: getTokenInfos_def exampleFetch_def examplePairs_def examplePair_def
        highLiquidity_def addPair_def dexScreenChainIdMap_def objectPrototypeKeys_def
        tokenOf_def pairAddress_def)
  have q2: "qualifies ?p2" "pairAddress ?p2 = Some ''So222''" "?p2 \<in> set (responsePairs exampleFetch ''AAA'')"
    by (simp_all add: rp examplePairs_def examplePair_def qualifies_def contributes_def
        highLiquidity_def dexScreenChainIdMap_def pairAddress_def)
  from getTokenInfos_tokens [of exampleFetch "''AAA''"] g
  have p: "(\<forall>t \<in> set [tokenOf ?p1, tokenOf ?p2]. decimals_info t = 18)"
    "distinct (map address_info [tokenOf ?p1, tokenOf ?p2])"
    "\<forall>pair \<in> set (responsePairs exampleFetch ''AAA''). qualifies pair \<longrightarrow>
       the (pairAddress pair) \<in> address_info ` set [tokenOf ?p1, tokenOf ?p2]"
    "[tokenOf ?p1, tokenOf ?p2] = map tokenOf (firstQualifying [] (responsePairs exampleFetch ''AAA''))"
    by blast+
  from p(1) have d: "decimals_info (tokenOf ?p1) = 18"
    by simp
  from p(3) q2 have c: "''So222'' \<in> address_info ` set [tokenOf ?p1, tokenOf ?p2]"
    by fastforce
  have f: "find (\<lambda>p. qualifies p \<and> pairAddress p = Some ''0xAAA'') (responsePairs exampleFetch ''AAA'')
       = Some ?p1"
    by (simp add: rp examplePairs_def examplePair_def qualifies_def contributes_def
        highLiquidity_def dexScreenChainIdMap_def objectPrototypeKeys_def pairAddress_def)
  have k: "firstQualifying [] (responsePairs exampleFetch ''AAA'') = [?p1, ?p2]"
    by (simp add: rp examplePairs_def examplePair_def qualifies_def contributes_def
        highLiquidity_def dexScreenChainIdMap_def objectPrototypeKeys_def pairAddress_def)
  from r g d p(2) f q2(1) c k show ?thesis
    by blast
qed

text \<open>
  A chain name that is a property name of \<^verbatim>\<open>Object.prototype\<close> is not dropped: the
  pair is kept with the inherited member as its chain id, and the later Ethereum pair
  of the same address is not.
\<close>

lemma getTokenInfos_inherited_key_example:
  "getTokenInfos (\<lambda>q. Resolves \<lparr>ok = True, statusText = ''OK'',
                                 json = Resolves (Some inheritedKeyPairs)\<rparr>) ''AAA''
     = Inr [\<lparr>address_info = ''0xAAA'', symbol_info = ''BAD'', decimals_info = 18,
             chainId_info = Inherited ''toString''\<rparr>]"
  by (simp add: getTokenInfos_def inheritedKeyPairs_def examplePair_def highLiquidity_def
      addPair_def dexScreenChainIdMap_def objectPrototypeKeys_def)

section \<open>Properties of the normalizer\<close>

lemma digitsVal_snoc: "digitsVal (xs @ [c]) = 10 * digitsVal xs + digitVal c"
  by (simp add: digitsVal_def)

lemma digitsVal_Nil: "digitsVal [] = 0"
  by (simp add: digitsVal_def)

lemma digitsVal_append: "digitsVal (xs @ ys) = digitsVal xs * 10 ^ length ys + digitsVal ys"
proof (induction ys rule: rev_induct)
  case Nil
  show ?case by (simp add: digitsVal_Nil)
next
  case (snoc y ys)
  have "digitsVal (xs @ ys @ [y]) = 10 * digitsVal (xs @ ys) + digitVal y"
    using digitsVal_snoc [of "xs @ ys" y] by simp
  also have "\<dots> = 10 * (digitsVal xs * 10 ^ length ys + digitsVal ys) + digitVal y"
    by (simp only: snoc.IH)
  also have "\<dots> = digitsVal xs * 10 ^ length (ys @ [y]) + digitsVal (ys @ [y])"
    by (simp add: digitsVal_snoc algebra_simps)
  finally show ?case .
qed

lemma digitsVal_zeros: "list_all (\<lambda>c. c = CHR ''0'') zs \<Longrightarrow> digitsVal zs = 0"
proof (induction zs rule: rev_induct)
  case Nil
  show ?case by (simp add: digitsVal_Nil)
next
  case (snoc z zs)
  then show ?case
    by (simp add: digitsVal_snoc digitVal_def)
qed

lemma Zeros_facts: "length Zeros = 128" "list_all (\<lambda>c. c = CHR ''0'') Zeros"
  by (simp_all add: Zeros_def list_all_iff)

text \<open>For at most 128 decimals the padding loop runs at most once.\<close>

lemma padDecimal_form:
  assumes "n \<le> 128"
  shows "\<exists>pad. padDecimal decimal n = decimal @ pad \<and> list_all (\<lambda>c. c = CHR ''0'') pad
           \<and> n \<le> length (decimal @ pad)"
proof (cases "length decimal < n")
  case False
  then have "padDecimal decimal n = decimal @ []"
    by (subst padDecimal.simps) simp
  with False show ?thesis
    by (intro exI [of _ "[]"]) simp
next
  case True
  then have "padDecimal decimal n = padDecimal (decimal @ Zeros) n"
    by (subst padDecimal.simps) simp
  also have "\<dots> = decimal @ Zeros"
    using assms by (subst padDecimal.simps) (simp add: Zeros_facts)
  finally show ?thesis
    using assms by (intro exI [of _ Zeros]) (simp add: Zeros_facts)
qed

lemma matchDecimal_facts:
  assumes "matchDecimal s = Some (sg, m2, m3)"
  shows "sg = [] \<or> sg = ''-''" "list_all isDigit m2"
proof -
  obtain sg' r where sr:
    "(case s of c # t \<Rightarrow> if c = CHR ''-'' then (''-'', t) else ('''', s) | [] \<Rightarrow> ('''', s)) = (sg', r)"
    by (cases "(case s of c # t \<Rightarrow> if c = CHR ''-'' then (''-'', t) else ('''', s) | [] \<Rightarrow> ('''', s))")
  then have sg': "sg' = [] \<or> sg' = ''-''"
    by (auto split: list.splits if_splits)
  from assms sr have "sg = sg'" "m2 = takeWhile isDigit r"
    by (auto simp: matchDecimal_def Let_def split: if_splits)
  with sg' show "sg = [] \<or> sg = ''-''" "list_all isDigit m2"
    by (auto simp: list_all_iff dest: set_takeWhileD)
qed

lemma isDigit_not_minus: "isDigit c \<Longrightarrow> c \<noteq> CHR ''-''"
  by (auto simp: isDigit_def)

lemma BigInt_signed:
  assumes "sg = [] \<or> sg = ''-''" "ds \<noteq> []" "isDigit (hd ds)"
  shows "BigInt (sg @ ds) = (if sg = ''-'' then - 1 else 1) * int (digitsVal ds)"
proof -
  from assms(2) obtain c t where ds: "ds = c # t" by (cases ds) auto
  with assms(3) have "c \<noteq> CHR ''-''" by (simp add: isDigit_not_minus)
  with assms(1) ds show ?thesis
    by (auto simp: BigInt_def)
qed

lemma scaled_fraction:
  assumes fit: "list_all (\<lambda>c. c = CHR ''0'') (drop d m3)"
    and pad: "list_all (\<lambda>c. c = CHR ''0'') pad"
    and len: "d \<le> length (m3 @ pad)"
  shows "(of_nat (digitsVal (take d (m3 @ pad))) :: rat)
           = of_nat (digitsVal m3) / 10 ^ length m3 * 10 ^ d"
proof (cases "length m3 \<le> d")
  case True
  let ?k = "d - length m3"
  have z: "digitsVal (take ?k pad) = 0"
    using pad by (intro digitsVal_zeros) (auto simp: list_all_iff dest: in_set_takeD)
  have l: "length (take ?k pad) = ?k"
    using len by simp
  have "take d (m3 @ pad) = m3 @ take ?k pad"
    using True by simp
  then have "digitsVal (take d (m3 @ pad)) = digitsVal m3 * 10 ^ length (take ?k pad) + digitsVal (take ?k pad)"
    by (simp only: digitsVal_append)
  then have "digitsVal (take d (m3 @ pad)) = digitsVal m3 * 10 ^ ?k"
    by (simp only: z l add_0_right)
  moreover have "(10::rat) ^ d = 10 ^ length m3 * 10 ^ ?k"
    using True by (simp flip: power_add)
  ultimately show ?thesis
    by simp
next
  case False
  let ?k = "length m3 - d"
  have z: "digitsVal (drop d m3) = 0"
    using fit by (rule digitsVal_zeros)
  have "digitsVal m3 = digitsVal (take d m3 @ drop d m3)"
    by simp
  also have "\<dots> = digitsVal (take d m3) * 10 ^ ?k"
    by (simp only: digitsVal_append z length_drop add_0_right)
  finally have v: "digitsVal m3 = digitsVal (take d m3) * 10 ^ ?k" .
  have p: "(10::rat) ^ length m3 = 10 ^ ?k * 10 ^ d"
    using False by (simp flip: power_add)
  have t: "take d (m3 @ pad) = take d m3"
    using False by simp
  have "of_nat (digitsVal m3) / 10 ^ length m3 * 10 ^ d = (of_nat (digitsVal (take d m3)) :: rat)"
    unfolding v p by simp
  then show ?thesis
    by (simp only: t)
qed

lemma digitsVal_zero_literal: "digitsVal ''0'' = 0"
  by (simp add: digitsVal_def digitVal_def)

lemma isDigit_zero: "isDigit CHR ''0''"
  by (simp add: isDigit_def)

lemma parseUnits_exact:
  assumes m: "matchDecimal s = Some (sg, m2, m3)"
    and ne: "m2 \<noteq> [] \<or> m3 \<noteq> []"
    and d: "d \<le> 80"
    and fit: "list_all (\<lambda>c. c = CHR ''0'') (drop d m3)"
  shows "\<exists>n. (of_int n :: rat)
               = (if sg = ''-'' then - 1 else 1)
                   * (of_nat (digitsVal m2) + of_nat (digitsVal m3) / 10 ^ length m3) * 10 ^ d
             \<and> parseUnits s d
               = (if - (2 ^ 511) \<le> n \<and> n < 2 ^ 511 then Inr n else Inl (NumericFault ''overflow''))"
proof -
  from d have "d \<le> 128" by simp
  from padDecimal_form [OF this, of m3] obtain pad where
    pad: "padDecimal m3 d = m3 @ pad" "list_all (\<lambda>c. c = CHR ''0'') pad" "d \<le> length (m3 @ pad)"
    by blast
  let ?whole = "if m2 = [] then ''0'' else m2"
  let ?dec = "take d (m3 @ pad)"
  let ?n = "BigInt (sg @ ?whole @ ?dec)"
  have chk: "list_all (\<lambda>c. c = CHR ''0'') (drop d (m3 @ pad))"
    using fit pad(2) by (auto simp: list_all_iff dest: in_set_dropD)
  have pu: "parseUnits s d
      = (if - (2 ^ 511) \<le> ?n \<and> ?n < 2 ^ 511 then Inr ?n else Inl (NumericFault ''overflow''))"
    using m ne d chk by (simp add: parseUnits_def Let_def pad(1))
  from matchDecimal_facts [OF m] have sg: "sg = [] \<or> sg = ''-''" and dg: "list_all isDigit m2"
    by blast+
  have w: "?whole \<noteq> []" "isDigit (hd ?whole)" "digitsVal ?whole = digitsVal m2"
    using dg by (auto simp: isDigit_zero digitsVal_zero_literal digitsVal_Nil list_all_iff)
  have "?whole @ ?dec \<noteq> []" "isDigit (hd (?whole @ ?dec))"
    using w(1,2) by (simp_all del: One_nat_def)
  from BigInt_signed [OF sg this]
  have n: "?n = (if sg = ''-'' then - 1 else 1) * int (digitsVal (?whole @ ?dec))"
    by simp
  have ld: "length ?dec = d"
    using pad(3) by simp
  have "digitsVal (?whole @ ?dec) = digitsVal m2 * 10 ^ d + digitsVal ?dec"
    by (simp only: digitsVal_append ld w(3))
  then have "(of_nat (digitsVal (?whole @ ?dec)) :: rat)
      = of_nat (digitsVal m2) * 10 ^ d + of_nat (digitsVal ?dec)"
    by simp
  also have "\<dots> = (of_nat (digitsVal m2) + of_nat (digitsVal m3) / 10 ^ length m3) * 10 ^ d"
    by (simp only: scaled_fraction [OF fit pad(2) pad(3)] distrib_right)
  finally have "(of_int ?n :: rat)
      = (if sg = ''-'' then - 1 else 1)
          * (of_nat (digitsVal m2) + of_nat (digitsVal m3) / 10 ^ length m3) * 10 ^ d"
    unfolding n by simp
  with pu show ?thesis by blast
qed

lemma parseUnits_too_many:
  assumes m: "matchDecimal s = Some (sg, m2, m3)"
    and ne: "m2 \<noteq> [] \<or> m3 \<noteq> []"
    and d: "d \<le> 80"
    and fit: "\<not> list_all (\<lambda>c. c = CHR ''0'') (drop d m3)"
  shows "parseUnits s d = Inl (NumericFault ''too many decimals for format'')"
proof -
  from d have "d \<le> 128" by simp
  from padDecimal_form [OF this, of m3] obtain pad where
    pad: "padDecimal m3 d = m3 @ pad"
    by blast
  have "\<not> list_all (\<lambda>c. c = CHR ''0'') (drop d (m3 @ pad))"
    using fit by (auto simp: list_all_iff)
  with m ne d show ?thesis
    by (simp add: parseUnits_def Let_def pad)
qed

lemma decimalValue_Some:
  assumes "decimalValue s = Some v"
  shows "\<exists>sg m2 m3. matchDecimal s = Some (sg, m2, m3) \<and> (m2 \<noteq> [] \<or> m3 \<noteq> [])
           \<and> v = (if sg = ''-'' then - 1 else 1)
                   * (of_nat (digitsVal m2) + of_nat (digitsVal m3) / 10 ^ length m3)"
proof (cases "matchDecimal s")
  case None
  with assms show ?thesis
    by (simp add: decimalValue_def)
next
  case (Some triple)
  obtain sg m2 m3 where t: "triple = (sg, m2, m3)"
    by (cases triple)
  have ne: "m2 \<noteq> [] \<or> m3 \<noteq> []"
  proof (rule ccontr)
    assume "\<not> (m2 \<noteq> [] \<or> m3 \<noteq> [])"
    with assms Some t show False
      by (simp add: decimalValue_def)
  qed
  then have "\<not> (m2 = [] \<and> m3 = [])"
    by blast
  with assms Some t have "v = (if sg = ''-'' then - 1 else 1)
                   * (of_nat (digitsVal m2) + of_nat (digitsVal m3) / 10 ^ length m3)"
    by (simp only: decimalValue_def option.case prod.case if_False option.inject)
  with Some t ne show ?thesis
    by blast
qed

lemma createSwapParams_parse:
  assumes "getDecimals svc (tokenIn request) (case chainIn request of None \<Rightarrow> ETHEREUM | Some c \<Rightarrow> c)
             = Resolves d"
    and "getDecimals svc (tokenOut request) (case chainOut request of None \<Rightarrow> ETHEREUM | Some c \<Rightarrow> c)
             = Resolves d'"
  shows "fst (createSwapParams svc request w)
           = (case parseUnits (normalAmountIn request) d of
                Inl e \<Rightarrow> Inl e
              | Inr units \<Rightarrow>
                  Inr \<lparr>fromToken = \<lparr>address = tokenIn request,
                          chainId = (case chainIn request of None \<Rightarrow> ETHEREUM | Some c \<Rightarrow> c),
                          decimals = d\<rparr>,
                        toToken = \<lparr>address = tokenOut request,
                          chainId = (case chainOut request of None \<Rightarrow> ETHEREUM | Some c \<Rightarrow> c),
                          decimals = d'\<rparr>,
                        amount = of_int units,
                        slippageTolerance = (case slippage request of None \<Rightarrow> 1 / 2 | Some s \<Rightarrow> s),
                        recipient = None\<rparr>)"
  using assms
  by (simp add: createSwapParams_def Let_def split: sum.splits)

text \<open>
  C4, as the claim states it, fails: for the amount \<open>0.0000001\<close> and a source token of
  6 decimals the normalizer produces no parameters; it ends with a numeric fault.
\<close>

theorem createSwapParams_precision_counterexample:
  "decimalValue ''0.0000001'' = Some (1 / 10000000)
   \<and> getDecimals (exampleService []) ''0xUSDC'' ETHEREUM = Resolves 6
   \<and> fst (createSwapParams (exampleService []) (exampleRequest ''0.0000001'') world0)
       = Inl (NumericFault ''too many decimals for format'')"
proof -
  have m: "matchDecimal ''0.0000001'' = Some ([], ''0'', ''0000001'')"
    by (simp add: matchDecimal_def isDigit_def)
  have pd: "padDecimal ''0000001'' 6 = ''0000001''"
    by (subst padDecimal.simps) simp
  have p: "parseUnits ''0.0000001'' 6 = Inl (NumericFault ''too many decimals for format'')"
    by (simp add: parseUnits_def m pd)
  have v: "decimalValue ''0.0000001'' = Some (1 / 10000000)"
    by (simp add: decimalValue_def m digitsVal_def digitVal_def)
  have c: "fst (createSwapParams (exampleService []) (exampleRequest ''0.0000001'') world0)
       = Inl (NumericFault ''too many decimals for format'')"
    by (simp add: createSwapParams_def exampleService_def exampleRequest_def Let_def p)
  have g: "getDecimals (exampleService []) ''0xUSDC'' ETHEREUM = Resolves 6"
    by (simp add: exampleService_def)
  from v g c show ?thesis by blast
qed

text \<open>
  C4, amended. In the normalizer of meta-swap-api, when both decimals lookups resolve,
  the source token has at most 80 decimals \<open>d\<close> and the amount string \<open>s\<close> denotes the
  number \<open>v\<close>: if \<open>s\<close> has no non-zero digit after its \<open>d\<close>-th fractional digit and
  \<open>v * 10 ^ d\<close> is below \<open>2 ^ 511\<close> in absolute value, the parameters are produced with
  \<open>amount = v * 10 ^ d\<close>, an integer, and with the resolved decimals of the source token;
  if \<open>s\<close> has a non-zero digit after its \<open>d\<close>-th fractional digit, the normalizer ends
  with a numeric fault and rounds nothing. The normalizer of tee-txn-signer does not
  scale: the amount is the \<open>BigNumber\<close> of \<open>amountIn\<close> and the decimals are 18.
\<close>

theorem createSwapParams_exact:
  assumes "getDecimals svc (tokenIn request) (case chainIn request of None \<Rightarrow> ETHEREUM | Some c \<Rightarrow> c)
             = Resolves d"
    and "getDecimals svc (tokenOut request) (case chainOut request of None \<Rightarrow> ETHEREUM | Some c \<Rightarrow> c)
             = Resolves d'"
    and "decimalValue (normalAmountIn request) = Some v"
    and "d \<le> 80"
  shows "(fitsDecimals (normalAmountIn request) d \<and> \<bar>v * 10 ^ d\<bar> < 2 ^ 511 \<longrightarrow>
           (\<exists>params n. fst (createSwapParams svc request w) = Inr params
              \<and> amount params = v * 10 ^ d \<and> amount params = of_int n
              \<and> decimals (fromToken params) = d))
         \<and> (\<not> fitsDecimals (normalAmountIn request) d \<longrightarrow>
              fst (createSwapParams svc request w)
                = Inl (NumericFault ''too many decimals for format''))
         \<and> amount (createSwapParams_tee bn request_tee) = bn (amountIn request_tee)
         \<and> decimals (fromToken (createSwapParams_tee bn request_tee)) = 18"
proof (intro conjI impI)
  from decimalValue_Some [OF assms(3)] obtain sg m2 m3 where
    m: "matchDecimal (normalAmountIn request) = Some (sg, m2, m3)"
    and ne: "m2 \<noteq> [] \<or> m3 \<noteq> []"
    and v: "v = (if sg = ''-'' then - 1 else 1)
                  * (of_nat (digitsVal m2) + of_nat (digitsVal m3) / 10 ^ length m3)"
    by blast
  note c = createSwapParams_parse [OF assms(1,2), of w]
  {
    assume "fitsDecimals (normalAmountIn request) d \<and> \<bar>v * 10 ^ d\<bar> < 2 ^ 511"
    then have fit: "list_all (\<lambda>c. c = CHR ''0'') (drop d m3)" and r: "\<bar>v * 10 ^ d\<bar> < 2 ^ 511"
      using m by (simp_all add: fitsDecimals_def)
    from parseUnits_exact [OF m ne assms(4) fit] obtain n where
      n: "(of_int n :: rat) = v * 10 ^ d"
      and pu: "parseUnits (normalAmountIn request) d
          = (if - (2 ^ 511) \<le> n \<and> n < 2 ^ 511 then Inr n else Inl (NumericFault ''overflow''))"
      unfolding v by blast
    from r n have "(of_int \<bar>n\<bar> :: rat) < of_int (2 ^ 511)"
      by simp
    then have "\<bar>n\<bar> < 2 ^ 511"
      by (simp only: of_int_less_iff)
    then have "- (2 ^ 511) \<le> n \<and> n < 2 ^ 511"
      by (simp only: abs_less_iff) auto
    with pu have "parseUnits (normalAmountIn request) d = Inr n"
      by simp
    with c have "fst (createSwapParams svc request w)
        = Inr \<lparr>fromToken = \<lparr>address = tokenIn request,
                  chainId = (case chainIn request of None \<Rightarrow> ETHEREUM | Some c \<Rightarrow> c),
                  decimals = d\<rparr>,
                toToken = \<lparr>address = tokenOut request,
                  chainId = (case chainOut request of None \<Rightarrow> ETHEREUM | Some c \<Rightarrow> c),
                  decimals = d'\<rparr>,
                amount = of_int n,
                slippageTolerance = (case slippage request of None \<Rightarrow> 1 / 2 | Some s \<Rightarrow> s),
                recipient = None\<rparr>" (is "_ = Inr ?params")
      by simp
    moreover have "amount ?params = v * 10 ^ d" "amount ?params = of_int n"
      "decimals (fromToken ?params) = d"
      using n by simp_all
    ultimately show "\<exists>params n. fst (createSwapParams svc request w) = Inr params
              \<and> amount params = v * 10 ^ d \<and> amount params = of_int n
              \<and> decimals (fromToken params) = d"
      by blast
  }
  {
    assume "\<not> fitsDecimals (normalAmountIn request) d"
    then have "\<not> list_all (\<lambda>c. c = CHR ''0'') (drop d m3)"
      using m by (simp add: fitsDecimals_def)
    from parseUnits_too_many [OF m ne assms(4) this] c
    show "fst (createSwapParams svc request w) = Inl (NumericFault ''too many decimals for format'')"
      by simp
  }
  show "amount (createSwapParams_tee bn request_tee) = bn (amountIn request_tee)"
    by (simp add: createSwapParams_tee_def Let_def)
  show "decimals (fromToken (createSwapParams_tee bn request_tee)) = 18"
    by (simp add: createSwapParams_tee_def Let_def)
qed

text \<open>
  The two amounts of the specification at 6 decimals, and the amount of the
  counterexample.
\<close>

theorem createSwapParams_exact_witness:
  "getDecimals (exampleService []) (tokenIn (exampleRequest ''1.5'')) ETHEREUM = Resolves 6
   \<and> decimalValue ''1.5'' = Some (3 / 2) \<and> fitsDecimals ''1.5'' 6
   \<and> (\<exists>params. fst (createSwapParams (exampleService []) (exampleRequest ''1.5'') world0) = Inr params
         \<and> amount params = 1500000 \<and> decimals (fromToken params) = 6)
   \<and> decimalValue ''0.000001'' = Some (1 / 1000000) \<and> fitsDecimals ''0.000001'' 6
   \<and> (\<exists>params. fst (createSwapParams (exampleService []) (exampleRequest ''0.000001'') world0) = Inr params
         \<and> amount params = 1 \<and> decimals (fromToken params) = 6)
   \<and> decimalValue ''0.0000001'' = Some (1 / 10000000) \<and> \<not> fitsDecimals ''0.0000001'' 6
   \<and> fst (createSwapParams (exampleService []) (exampleRequest ''0.0000001'') world0)
       = Inl (NumericFault ''too many decimals for format'')"
proof -
  let ?svc = "exampleService []"
  have g: "getDecimals ?svc (tokenIn (exampleRequest s))
             (case chainIn (exampleRequest s) of None \<Rightarrow> ETHEREUM | Some c \<Rightarrow> c) = Resolves 6"
          "getDecimals ?svc (tokenOut (exampleRequest s))
             (case chainOut (exampleRequest s) of None \<Rightarrow> ETHEREUM | Some c \<Rightarrow> c) = Resolves 6"
          "normalAmountIn (exampleRequest s) = s" for s
    by (simp_all add: exampleService_def exampleRequest_def)
  have g0: "getDecimals ?svc (tokenIn (exampleRequest ''1.5'')) ETHEREUM = Resolves 6"
    by (simp add: exampleService_def)
  have d: "(6::nat) \<le> 80" by simp
  have m1: "matchDecimal ''1.5'' = Some ([], ''1'', ''5'')"
    by (simp add: matchDecimal_def isDigit_def)
  have v1: "decimalValue ''1.5'' = Some (3 / 2)"
    by (simp add: decimalValue_def m1 digitsVal_def digitVal_def)
  have f1: "fitsDecimals ''1.5'' 6"
    by (simp add: fitsDecimals_def m1)
  have r1: "\<bar>(3 / 2 :: rat) * 10 ^ 6\<bar> < 2 ^ 511"
    by simp
  have v1': "decimalValue (normalAmountIn (exampleRequest ''1.5'')) = Some (3 / 2)"
    by (simp only: g(3) v1)
  from createSwapParams_exact [OF g(1) g(2) v1' d, of world0] f1 r1
  obtain params1 where p1: "fst (createSwapParams ?svc (exampleRequest ''1.5'') world0) = Inr params1"
    "amount params1 = 3 / 2 * 10 ^ 6" "decimals (fromToken params1) = 6"
    unfolding g(3) by blast
  from p1(2) have a1: "amount params1 = 1500000"
    by simp
  have m2: "matchDecimal ''0.000001'' = Some ([], ''0'', ''000001'')"
    by (simp add: matchDecimal_def isDigit_def)
  have v2: "decimalValue ''0.000001'' = Some (1 / 1000000)"
    by (simp add: decimalValue_def m2 digitsVal_def digitVal_def)
  have f2: "fitsDecimals ''0.000001'' 6"
    by (simp add: fitsDecimals_def m2)
  have r2: "\<bar>(1 / 1000000 :: rat) * 10 ^ 6\<bar> < 2 ^ 511"
    by simp
  have v2': "decimalValue (normalAmountIn (exampleRequest ''0.000001'')) = Some (1 / 1000000)"
    by (simp only: g(3) v2)
  from createSwapParams_exact [OF g(1) g(2) v2' d, of world0] f2 r2
  obtain params2 where p2: "fst (createSwapParams ?svc (exampleRequest ''0.000001'') world0) = Inr params2"
    "amount params2 = 1 / 1000000 * 10 ^ 6" "decimals (fromToken params2) = 6"
    unfolding g(3) by blast
  from p2(2) have a2: "amount params2 = 1"
    by simp
  have m3: "matchDecimal ''0.0000001'' = Some ([], ''0'', ''0000001'')"
    by (simp add: matchDecimal_def isDigit_def)
  have v3: "decimalValue ''0.0000001'' = Some (1 / 10000000)"
    by (simp add: decimalValue_def m3 digitsVal_def digitVal_def)
  have f3: "\<not> fitsDecimals ''0.0000001'' 6"
    by (simp add: fitsDecimals_def m3)
  have v3': "decimalValue (normalAmountIn (exampleRequest ''0.0000001'')) = Some (1 / 10000000)"
    by (simp only: g(3) v3)
  from createSwapParams_exact [OF g(1) g(2) v3' d, of world0] f3
  have p3: "fst (createSwapParams ?svc (exampleRequest ''0.0000001'') world0)
       = Inl (NumericFault ''too many decimals for format'')"
    unfolding g(3) by blast
  from g0 v1 f1 p1(1) a1 p1(3) v2 f2 p2(1) a2 p2(3) v3 f3 p3 show ?thesis
    by blast
qed

section \<open>The print of a quoted amount\<close>

text \<open>
  An output amount with a digit beyond the twentieth decimal place prints as an integer,
  which \<open>formatUnits\<close> accepts; one with a digit within the first twenty does not.
\<close>

lemma toString10_example:
  "toString10 (1000 + 1 / 10 ^ 21) = 1000"
  "formatUnits (toString10 (1000 + 1 / 10 ^ 21)) 6 = Inr (1 / 1000)"
  "formatUnits (toString10 (3 / 2)) 6 = Inl (InvalidArgument ''invalid BigNumberish string'')"
proof -
  have f: "\<lfloor>(1000 + 1 / 10 ^ 21) * 10 ^ 20 + 1 / 2 :: rat\<rfloor> = 1000 * 10 ^ 20"
    by (rule floor_unique) simp_all
  then show a: "toString10 (1000 + 1 / 10 ^ 21) = 1000"
    by (simp add: toString10_def roundHalfUp_def)
  show "formatUnits (toString10 (1000 + 1 / 10 ^ 21)) 6 = Inr (1 / 1000)"
    unfolding a by (simp add: formatUnits_def)
  have g: "\<lfloor>(3 / 2) * 10 ^ 20 + 1 / 2 :: rat\<rfloor> = 15 * 10 ^ 19"
    by (rule floor_unique) simp_all
  then have b: "toString10 (3 / 2) = 3 / 2"
    by (simp add: toString10_def roundHalfUp_def)
  have "\<lfloor>3 / 2 :: rat\<rfloor> = 1"
    by (rule floor_unique) simp_all
  then show "formatUnits (toString10 (3 / 2)) 6 = Inl (InvalidArgument ''invalid BigNumberish string'')"
    unfolding b by (simp add: formatUnits_def)
qed

end
